theory Spec2Isabelle
  imports Main
begin

section \<open>pgmock.render: a shallow embedding\<close>

text \<open>
  The theory embeds the region matching and rewrite engine of \<^verbatim>\<open>pgmock/render.py\<close>.
  Python strings are \<^typ>\<open>string\<close> (lists of characters with the code points 0 to 255,
  so the model speaks about Latin-1 text), Python integers are \<^typ>\<open>int\<close>, every exception the code can
  raise is a value of \<open>error\<close>, and a function that can raise returns \<open>error + 'a\<close>
  with \<open>Inl\<close> for the exception.
\<close>

subsection \<open>Exceptions\<close>

text \<open>
  One constructor per exception class that the embedded code raises. The payloads keep
  what the error messages are formatted from: the statement count and the range for
  \<open>StatementParseError\<close>, the fragments for the match errors, the row number and the
  column for \<open>ColumnMismatchInPatchError\<close>, the printed value and its type for
  \<open>ValueSerializationError\<close>, the index and the direction for \<open>InvalidSQLError\<close>.
  In Python \<open>NestedMatchError\<close> is a subclass of \<open>MultipleMatchError\<close>. \<open>ReError\<close> is
  \<open>re.error\<close>.
\<close>

datatype error =
    KeyError
  | IndexError
  | ValueError
  | AssertionError
  | InvalidSQLError int int
  | StatementParseError nat int int
  | NoMatchError
  | MultipleMatchError "string list"
  | NestedMatchError "string list"
  | UnpatchableError
  | ColumnsNeededForPatchError
  | ColumnMismatchInPatchError nat string
  | ValueSerializationError string string
  | AttributeError
  | TypeError
  | ReError

definition rbind :: "error + 'a \<Rightarrow> ('a \<Rightarrow> error + 'b) \<Rightarrow> error + 'b" where
  "rbind m f = (case m of Inl e \<Rightarrow> Inl e | Inr x \<Rightarrow> f x)"

subsection \<open>Characters\<close>

abbreviation sq :: char where "sq \<equiv> CHR 0x27"
abbreviation dq :: char where "dq \<equiv> CHR 0x22"
abbreviation nl :: char where "nl \<equiv> CHR 0x0A"
abbreviation sp :: char where "sp \<equiv> CHR '' ''"
abbreviation bsl :: char where "bsl \<equiv> CHR 0x5C"

subsection \<open>Python slicing\<close>

text \<open>
  \<open>py_clamp n i\<close> is the position a slice bound \<open>i\<close> denotes in a sequence of length
  \<open>n\<close> when the step is positive: a negative bound counts from the end, and the result
  is clipped to \<open>0..n\<close>. \<open>py_slice xs a b\<close> is \<open>xs[a:b]\<close>, \<open>py_slice_to xs b\<close> is \<open>xs[:b]\<close>
  and \<open>py_slice_from xs a\<close> is \<open>xs[a:]\<close>.
\<close>

definition py_clamp :: "nat \<Rightarrow> int \<Rightarrow> nat" where
  "py_clamp n i = (if i < 0 then nat (max (i + int n) 0) else min (nat i) n)"

definition py_slice :: "'a list \<Rightarrow> int \<Rightarrow> int \<Rightarrow> 'a list" where
  "py_slice xs a b =
     (let lo = py_clamp (length xs) a; hi = py_clamp (length xs) b
      in take (hi - lo) (drop lo xs))"

definition py_slice_to :: "'a list \<Rightarrow> int \<Rightarrow> 'a list" where
  "py_slice_to xs b = take (py_clamp (length xs) b) xs"

definition py_slice_from :: "'a list \<Rightarrow> int \<Rightarrow> 'a list" where
  "py_slice_from xs a = drop (py_clamp (length xs) a) xs"

text \<open>
  \<open>every_nth k xs\<close> keeps the elements of \<open>xs\<close> at the positions \<open>0, k, 2k, ...\<close>.
  \<open>py_getitem xs i\<close> is \<open>xs[i]\<close> for an integer: a negative index counts from the end and
  an index out of range raises \<open>IndexError\<close>. \<open>py_getslice xs a b c\<close> is the extended slice
  \<open>xs[a:b:c]\<close> whose parts may be absent: for a positive step it walks right from the
  clipped start to the clipped stop; for a negative step a negative bound counts from the
  end (so a start of \<open>-1\<close> is the last element), a bound past the end is the last element,
  and the walk goes left from the start down to, not including, the stop. A zero step raises
  \<open>ValueError\<close>. \<open>py_slice_step xs a d\<close> is \<open>xs[a::d]\<close>.
\<close>

fun every_nth_aux :: "nat \<Rightarrow> nat \<Rightarrow> 'a list \<Rightarrow> 'a list" where
  "every_nth_aux k j [] = []"
| "every_nth_aux k j (x # xs) =
     (if j = 0 then x # every_nth_aux k (k - 1) xs else every_nth_aux k (j - 1) xs)"

definition every_nth :: "nat \<Rightarrow> 'a list \<Rightarrow> 'a list" where
  "every_nth k xs = every_nth_aux k 0 xs"

definition py_getitem :: "'a list \<Rightarrow> int \<Rightarrow> error + 'a" where
  "py_getitem xs i =
     (let n = int (length xs); j = (if i < 0 then i + n else i)
      in if 0 \<le> j \<and> j < n then Inr (xs ! nat j) else Inl IndexError)"

definition py_getslice :: "'a list \<Rightarrow> int option \<Rightarrow> int option \<Rightarrow> int option \<Rightarrow> error + 'a list" where
  "py_getslice xs a b c =
     (let n = int (length xs); d = (case c of None \<Rightarrow> 1 | Some k \<Rightarrow> k) in
      if d = 0 then Inl ValueError
      else if 0 < d then
        (let lo = (case a of None \<Rightarrow> 0 | Some i \<Rightarrow> py_clamp (length xs) i);
             hi = (case b of None \<Rightarrow> length xs | Some j \<Rightarrow> py_clamp (length xs) j)
         in Inr (every_nth (nat d) (take (hi - lo) (drop lo xs))))
      else
        (let s = (case a of None \<Rightarrow> n - 1
                  | Some i \<Rightarrow> if i < 0 then max (i + n) (- 1) else min i (n - 1));
             e = (case b of None \<Rightarrow> - 1
                  | Some j \<Rightarrow> if j < 0 then max (j + n) (- 1) else min j (n - 1))
         in Inr (every_nth (nat (- d)) (rev (take (nat (s - e)) (drop (nat (e + 1)) xs))))))"

definition py_slice_step :: "'a list \<Rightarrow> int \<Rightarrow> int \<Rightarrow> error + 'a list" where
  "py_slice_step xs a d = py_getslice xs (Some a) None (Some d)"

subsection \<open>The masking pass\<close>

text \<open>
  \<open>_SPLITTER_REGEXES\<close> maps the token that opened the current region (\<open>None\<close> outside
  any region) to the regular expression that finds the next token. Each of the four
  expressions is an alternation of literal strings, written here as the list of its
  alternatives in the order of the pattern. The dictionary has the keys \<open>None\<close>,
  \<open>--\<close>, the single quote and \<open>/*\<close> and no others; a lookup of another key raises
  \<open>KeyError\<close>.
\<close>

definition SPLITTER_REGEXES :: "string option \<Rightarrow> string list option" where
  "SPLITTER_REGEXES tok =
     (if tok = None then Some [''--'', [sq], [dq], ''/*'']
      else if tok = Some ''--'' then Some [[nl]]
      else if tok = Some [sq] then Some [[sq]]
      else if tok = Some ''/*'' then Some [''*/'']
      else None)"

primrec starts_with :: "string \<Rightarrow> string \<Rightarrow> bool" where
  "starts_with s [] = True"
| "starts_with s (c # cs) = (case s of [] \<Rightarrow> False | d # ds \<Rightarrow> c = d \<and> starts_with ds cs)"

fun match_alt :: "string list \<Rightarrow> string \<Rightarrow> string option" where
  "match_alt [] s = None"
| "match_alt (a # alts) s = (if starts_with s a then Some a else match_alt alts s)"

text \<open>
  \<open>re_split1 alts s\<close> is \<open>regex.split(s, 1)\<close> for a pattern that is one capture group around
  the alternation \<open>alts\<close>: \<open>Some (prefix, token, rest)\<close> at the leftmost match (Python
  returns the three parts as a list), \<open>None\<close> when nothing matches (Python returns the list
  holding \<open>s\<close> alone).
\<close>

fun re_split1 :: "string list \<Rightarrow> string \<Rightarrow> (string \<times> string \<times> string) option" where
  "re_split1 alts [] = None"
| "re_split1 alts (c # cs) =
     (case match_alt alts (c # cs) of
        Some tok \<Rightarrow> Some ([], tok, drop (length tok) (c # cs))
      | None \<Rightarrow>
          (case re_split1 alts cs of
             None \<Rightarrow> None
           | Some (p, t, r) \<Rightarrow> Some (c # p, t, r)))"

lemma starts_with_append: "starts_with s a \<Longrightarrow> s = a @ drop (length a) s"
  by (induction a arbitrary: s) (auto split: list.splits)

lemma match_alt_Some: "match_alt alts s = Some t \<Longrightarrow> t \<in> set alts \<and> s = t @ drop (length t) s"
  by (induction alts) (auto split: if_splits dest: starts_with_append)

lemma re_split1_Some:
  "re_split1 alts s = Some (p, t, r) \<Longrightarrow> s = p @ t @ r \<and> t \<in> set alts"
proof (induction s arbitrary: p t r)
  case Nil
  then show ?case by simp
next
  case (Cons c cs)
  show ?case
  proof (cases "match_alt alts (c # cs)")
    case (Some tok)
    with Cons.prems have "p = []" "t = tok" "r = drop (length tok) (c # cs)"
      by auto
    with match_alt_Some[OF Some] show ?thesis by simp
  next
    case None
    with Cons.prems obtain p' where "re_split1 alts cs = Some (p', t, r)" "p = c # p'"
      by (auto split: option.splits)
    with Cons.IH[of p' t r] show ?thesis by simp
  qed
qed

lemma SPLITTER_REGEXES_nonempty:
  "SPLITTER_REGEXES prev = Some alts \<Longrightarrow> t \<in> set alts \<Longrightarrow> t \<noteq> []"
  by (auto simp: SPLITTER_REGEXES_def split: if_splits)

lemma split_rest_shorter:
  assumes "SPLITTER_REGEXES prev = Some alts" and "re_split1 alts s = Some (p, t, r)"
  shows "length r < length s"
proof -
  from re_split1_Some[OF assms(2)] have s: "s = p @ t @ r" and t: "t \<in> set alts"
    by simp_all
  from SPLITTER_REGEXES_nonempty[OF assms(1) t] have "t \<noteq> []" .
  then have "0 < length t" by simp
  moreover from s have "length s = length p + length t + length r"
    by (metis length_append add.assoc)
  ultimately show ?thesis by linarith
qed

text \<open>
  The loop of \<open>_strip_comments_and_string_literals\<close>, with its three variables as
  arguments. \<open>if previous_split_token\<close> is Python truthiness: neither \<open>None\<close> nor the
  empty string.
\<close>

function strip_loop :: "string \<Rightarrow> string option \<Rightarrow> string \<Rightarrow> error + string" where
  "strip_loop stripped_sql previous_split_token sql =
     (if sql = [] then Inr stripped_sql
      else
        (case SPLITTER_REGEXES previous_split_token of
           None \<Rightarrow> Inl KeyError
         | Some split_regex \<Rightarrow>
             (case re_split1 split_regex sql of
                None \<Rightarrow>
                  (if previous_split_token \<noteq> None \<and> previous_split_token \<noteq> Some []
                   then Inr (stripped_sql @ replicate (length sql) sp)
                   else Inr (stripped_sql @ sql))
              | Some (prefix, this_split_token, rest) \<Rightarrow>
                  (if previous_split_token \<noteq> None
                   then strip_loop (stripped_sql @ replicate (length prefix) sp @ this_split_token)
                          None rest
                   else strip_loop (stripped_sql @ prefix @ this_split_token)
                          (Some this_split_token) rest))))"
  by pat_completeness auto
termination
  by (relation "measure (\<lambda>(acc, prev, s). length s)") (auto dest: split_rest_shorter)

declare strip_loop.simps [simp del]

definition strip_comments_and_string_literals :: "string \<Rightarrow> error + string" where
  "strip_comments_and_string_literals sql = strip_loop [] None sql"

subsection \<open>The paren balancer\<close>

text \<open>
  The \<open>for\<close> loop of \<open>_find_enclosing_paren\<close> over the characters of the slice:
  \<open>Some i\<close> is the value of the counter \<open>i\<close> at the \<open>break\<close>, \<open>None\<close> is the loop
  running to its \<open>else\<close> branch.
\<close>

fun scan_parens :: "char \<Rightarrow> char \<Rightarrow> string \<Rightarrow> int \<Rightarrow> int \<Rightarrow> int option" where
  "scan_parens paren_start paren_end [] parens_unmatched i = None"
| "scan_parens paren_start paren_end (char # rest) parens_unmatched i =
     (if char = paren_start
      then scan_parens paren_start paren_end rest (parens_unmatched + 1) (i + 1)
      else if char = paren_end
      then (if parens_unmatched \<noteq> 0
            then scan_parens paren_start paren_end rest (parens_unmatched - 1) (i + 1)
            else Some i)
      else scan_parens paren_start paren_end rest parens_unmatched (i + 1))"

definition find_enclosing_paren :: "string \<Rightarrow> int \<Rightarrow> int \<Rightarrow> error + int" where
  "find_enclosing_paren sql paren_idx direction =
     (let paren_start = (if direction = 1 then CHR ''('' else CHR '')'');
          paren_end = (if direction = 1 then CHR '')'' else CHR ''('')
      in case py_slice_step sql (paren_idx + direction) direction of
           Inl e \<Rightarrow> Inl e
         | Inr chars \<Rightarrow>
             (case scan_parens paren_start paren_end chars 0 0 of
                None \<Rightarrow> Inl (InvalidSQLError paren_idx direction)
              | Some i \<Rightarrow> Inr (paren_idx + (i + 1) * direction)))"

text \<open>\<open>py_find s c start\<close> is \<open>s.find(c, start)\<close> for a one-character \<open>c\<close>.\<close>

fun index_of :: "char \<Rightarrow> string \<Rightarrow> nat option" where
  "index_of c [] = None"
| "index_of c (d # ds) =
     (if d = c then Some 0 else (case index_of c ds of None \<Rightarrow> None | Some j \<Rightarrow> Some (Suc j)))"

definition py_find :: "string \<Rightarrow> char \<Rightarrow> int \<Rightarrow> int" where
  "py_find s c start =
     (let k = py_clamp (length s) start
      in case index_of c (drop k s) of None \<Rightarrow> - 1 | Some j \<Rightarrow> int (k + j))"

definition get_end_statement :: "string \<Rightarrow> int \<Rightarrow> int" where
  "get_end_statement sql start =
     (let found = py_find sql (CHR '';'') start
      in if found = - 1 then int (length sql) else found)"

subsection \<open>Python string helpers\<close>

text \<open>
  \<open>py_split sep s\<close> is \<open>s.split(sep)\<close> for a non-empty separator, \<open>py_join sep xs\<close> is
  \<open>sep.join(xs)\<close>, \<open>str_contains sub s\<close> is \<open>sub in s\<close>, \<open>py_isspace\<close> is \<open>str.isspace\<close> on
  one character (which is also what \<open>\s\<close> matches in a pattern on \<open>str\<close>), \<open>py_strip\<close> is \<open>str.strip()\<close>,
  \<open>py_str_int\<close> is \<open>str\<close> on an integer and \<open>py_rjust s w\<close> is \<open>s.rjust(w)\<close>.
\<close>

fun py_split :: "string \<Rightarrow> string \<Rightarrow> string list" where
  "py_split sep [] = [[]]"
| "py_split sep (c # cs) =
     (if sep \<noteq> [] \<and> starts_with (c # cs) sep
      then [] # py_split sep (drop (length sep - 1) cs)
      else (case py_split sep cs of [] \<Rightarrow> [[c]] | p # ps \<Rightarrow> (c # p) # ps))"

fun py_join :: "string \<Rightarrow> string list \<Rightarrow> string" where
  "py_join sep [] = []"
| "py_join sep [x] = x"
| "py_join sep (x # y # ys) = x @ sep @ py_join sep (y # ys)"

fun str_contains :: "string \<Rightarrow> string \<Rightarrow> bool" where
  "str_contains sub [] = (sub = [])"
| "str_contains sub (c # cs) = (starts_with (c # cs) sub \<or> str_contains sub cs)"

definition py_isspace :: "char \<Rightarrow> bool" where
  "py_isspace c = (c \<in> set [CHR 0x09, CHR 0x0A, CHR 0x0B, CHR 0x0C, CHR 0x0D,
                              CHR 0x1C, CHR 0x1D, CHR 0x1E, CHR 0x1F, CHR 0x20,
                              CHR 0x85, CHR 0xA0])"

definition py_strip :: "string \<Rightarrow> string" where
  "py_strip s = rev (dropWhile py_isspace (rev (dropWhile py_isspace s)))"

definition digit_char :: "nat \<Rightarrow> char" where
  "digit_char d = ''0123456789'' ! d"

fun str_nat :: "nat \<Rightarrow> string" where
  "str_nat n = (if n < 10 then [digit_char n] else str_nat (n div 10) @ [digit_char (n mod 10)])"

declare str_nat.simps [simp del]

definition py_str_int :: "int \<Rightarrow> string" where
  "py_str_int i = (if i < 0 then CHR ''-'' # str_nat (nat (- i)) else str_nat (nat i))"

definition py_rjust :: "string \<Rightarrow> nat \<Rightarrow> string" where
  "py_rjust s w = replicate (w - length s) sp @ s"

subsection \<open>Serialising values\<close>

text \<open>
  The scalars \<open>_to_sql_value\<close> tells apart by their class. A value that Python prints
  through a library carries the printed text: \<open>PyFloat\<close> its \<open>str\<close>, \<open>PyDict\<close> its
  \<open>json.dumps\<close>, \<open>PyDatetime\<close>, \<open>PyDate\<close> and \<open>PyTime\<close> their \<open>isoformat()\<close> (the flag is
  the truth value of \<open>tzinfo\<close>), \<open>PyUUID\<close> its \<open>str\<close>. \<open>PyOther v t\<close> is a value of any other
  class, with \<open>str(val)\<close> and \<open>str(type(val))\<close>.
\<close>

datatype pyval =
    PyNone
  | PyBool bool
  | PyStr string
  | PyInt int
  | PyFloat string
  | PyDict string
  | PyDatetime string bool
  | PyDate string
  | PyTime string bool
  | PyUUID string
  | PyOther string string

definition double_quotes :: "string \<Rightarrow> string" where
  "double_quotes v = concat (map (\<lambda>c. if c = sq then [sq, sq] else [c]) v)"

definition quoted :: "string \<Rightarrow> string" where
  "quoted v = [sq] @ v @ [sq]"

text \<open>The two dictionaries of \<open>_to_sql_value\<close>, looked up by the class of the value and
  applied to it: \<open>None\<close> when the class is not a key.\<close>

fun PG_VALUE_SERIALIZERS :: "pyval \<Rightarrow> string option" where
  "PG_VALUE_SERIALIZERS (PyBool v) = Some (if v then ''TRUE'' else ''FALSE'')"
| "PG_VALUE_SERIALIZERS (PyStr v) = Some (quoted (double_quotes v))"
| "PG_VALUE_SERIALIZERS (PyInt v) = Some (py_str_int v)"
| "PG_VALUE_SERIALIZERS (PyFloat v) = Some v"
| "PG_VALUE_SERIALIZERS (PyDict v) = Some (quoted (double_quotes v))"
| "PG_VALUE_SERIALIZERS (PyDatetime v tz) = Some (quoted v)"
| "PG_VALUE_SERIALIZERS (PyDate v) = Some (quoted v)"
| "PG_VALUE_SERIALIZERS (PyTime v tz) = Some (quoted v)"
| "PG_VALUE_SERIALIZERS (PyUUID v) = Some (quoted v)"
| "PG_VALUE_SERIALIZERS PyNone = None"
| "PG_VALUE_SERIALIZERS (PyOther v t) = None"

fun PG_TYPES :: "pyval \<Rightarrow> string option" where
  "PG_TYPES (PyDict v) = Some ''JSON''"
| "PG_TYPES (PyDatetime v tz) = Some (''TIMESTAMP'' @ (if tz then ''TZ'' else []))"
| "PG_TYPES (PyDate v) = Some ''DATE''"
| "PG_TYPES (PyTime v tz) = Some (''TIME'' @ (if tz then ''TZ'' else []))"
| "PG_TYPES (PyUUID v) = Some ''UUID''"
| "PG_TYPES v = None"

fun py_str :: "pyval \<Rightarrow> string" where
  "py_str (PyOther v t) = v"
| "py_str PyNone = ''None''"
| "py_str (PyBool v) = (if v then ''True'' else ''False'')"
| "py_str (PyStr v) = v"
| "py_str (PyInt v) = py_str_int v"
| "py_str (PyFloat v) = v"
| "py_str (PyDict v) = v"
| "py_str (PyDatetime v tz) = v"
| "py_str (PyDate v) = v"
| "py_str (PyTime v tz) = v"
| "py_str (PyUUID v) = v"

fun py_type :: "pyval \<Rightarrow> string" where
  "py_type (PyOther v t) = t"
| "py_type PyNone = ''<class 'NoneType'>''"
| "py_type (PyBool v) = ''<class 'bool'>''"
| "py_type (PyStr v) = ''<class 'str'>''"
| "py_type (PyInt v) = ''<class 'int'>''"
| "py_type (PyFloat v) = ''<class 'float'>''"
| "py_type (PyDict v) = ''<class 'dict'>''"
| "py_type (PyDatetime v tz) = ''<class 'datetime.datetime'>''"
| "py_type (PyDate v) = ''<class 'datetime.date'>''"
| "py_type (PyTime v tz) = ''<class 'datetime.time'>''"
| "py_type (PyUUID v) = ''<class 'uuid.UUID'>''"

text \<open>Python truthiness of an optional string: neither \<open>None\<close> nor empty.\<close>

fun truthy :: "string option \<Rightarrow> bool" where
  "truthy None = False"
| "truthy (Some s) = (s \<noteq> [])"

definition to_sql_value :: "pyval \<Rightarrow> string option \<Rightarrow> error + string" where
  "to_sql_value val col_type0 =
     (let col_type = (if \<not> truthy col_type0 \<and> PG_TYPES val \<noteq> None
                      then PG_TYPES val else col_type0)
      in case (case PG_VALUE_SERIALIZERS val of
                 Some serialized \<Rightarrow> Inr serialized
               | None \<Rightarrow>
                   (if val = PyNone then Inr ''null''
                    else Inl (ValueSerializationError (py_str val) (py_type val)))) of
           Inl e \<Rightarrow> Inl e
         | Inr serialized \<Rightarrow>
             (case col_type of
                Some t \<Rightarrow> Inr (if t \<noteq> [] then serialized @ ''::'' @ t else serialized)
              | None \<Rightarrow> Inr serialized))"

text \<open>\<open>sequence\<close> runs a generator of results: the values in order up to the first
  exception, which it raises.\<close>

fun sequence :: "(error + 'a) list \<Rightarrow> error + 'a list" where
  "sequence [] = Inr []"
| "sequence (Inl e # rs) = Inl e"
| "sequence (Inr x # rs) = (case sequence rs of Inl e \<Rightarrow> Inl e | Inr xs \<Rightarrow> Inr (x # xs))"

definition row_to_sql_values :: "pyval list \<Rightarrow> string option list \<Rightarrow> error + string" where
  "row_to_sql_values row0 col_types =
     (let row = (if col_types \<noteq> [] \<and> length col_types > length row0
                 then row0 @ replicate (length col_types - length row0) PyNone
                 else row0);
          serialized = (if col_types \<noteq> []
                        then map (\<lambda>(val, col_type). to_sql_value val col_type) (zip row col_types)
                        else map (\<lambda>val. to_sql_value val None) row)
      in case sequence serialized of
           Inl e \<Rightarrow> Inl e
         | Inr parts \<Rightarrow> Inr (''('' @ py_join '','' parts @ '')''))"

text \<open>
  A row of patch data is a sequence of values or a dictionary from column names to values
  (its items in iteration order). Iterating a dictionary yields its keys, which is what
  \<open>_row_to_sql_values\<close> sees when it is handed one.
\<close>

datatype pyrow = ListRow "pyval list" | DictRow "(string \<times> pyval) list"

fun row_seq :: "pyrow \<Rightarrow> pyval list" where
  "row_seq (ListRow vals) = vals"
| "row_seq (DictRow items) = map (\<lambda>(col, val). PyStr col) items"

text \<open>\<open>col_pos\<close> is the dictionary \<open>{col: i for i, col in enumerate(cols)}\<close>: a later
  occurrence of a column overwrites an earlier one.\<close>

definition col_pos :: "string list \<Rightarrow> string \<Rightarrow> nat option" where
  "col_pos cols = map_of (rev (zip cols [0..<length cols]))"

fun fill_row :: "(string \<Rightarrow> nat option) \<Rightarrow> (string \<times> pyval) list \<Rightarrow> pyval list
                 \<Rightarrow> string + pyval list" where
  "fill_row pos [] list_row = Inr list_row"
| "fill_row pos ((col, val) # items) list_row =
     (case pos col of
        None \<Rightarrow> Inl col
      | Some i \<Rightarrow> fill_row pos items (list_row[i := val]))"

fun convert_loop :: "string list \<Rightarrow> pyrow list \<Rightarrow> nat \<Rightarrow> error + pyval list list" where
  "convert_loop cols [] row_num = Inr []"
| "convert_loop cols (ListRow vals # dict_rows) row_num = Inl AttributeError"
| "convert_loop cols (DictRow items # dict_rows) row_num =
     (case fill_row (col_pos cols) items (replicate (length cols) PyNone) of
        Inl col \<Rightarrow> Inl (ColumnMismatchInPatchError row_num col)
      | Inr list_row \<Rightarrow>
          (case convert_loop cols dict_rows (row_num + 1) of
             Inl e \<Rightarrow> Inl e
           | Inr list_rows \<Rightarrow> Inr (list_row # list_rows)))"

definition convert_dict_rows_to_lists :: "pyrow list \<Rightarrow> string list \<Rightarrow> error + pyval list list" where
  "convert_dict_rows_to_lists dict_rows cols = convert_loop cols dict_rows 0"

definition col_type_of :: "string \<Rightarrow> string option" where
  "col_type_of col =
     (if \<not> str_contains ''::'' col then None
      else (case py_split ''::'' col of a # b # rest \<Rightarrow> Some b | _ \<Rightarrow> None))"

definition col_name_of :: "string \<Rightarrow> string" where
  "col_name_of col =
     (if \<not> str_contains ''::'' col then col
      else (case py_split ''::'' col of a # rest \<Rightarrow> a | [] \<Rightarrow> col))"

definition is_dict :: "pyrow \<Rightarrow> bool" where
  "is_dict row = (case row of DictRow items \<Rightarrow> True | ListRow vals \<Rightarrow> False)"

text \<open>\<open>_gen_values(rows, cols, alias, select_all_from)\<close>. \<open>rows\<close> and \<open>cols\<close> given as
  \<open>None\<close> behave as the empty list throughout. \<open>format_values\<close> is the tail of the
  function, from the \<open>VALUES\<close> keyword on, applied to the serialised rows.\<close>

definition format_values :: "bool \<Rightarrow> string list \<Rightarrow> string list \<Rightarrow> string option \<Rightarrow> bool \<Rightarrow> string" where
  "format_values empty_values tuples col_names alias sel_all_from =
     (let values1 = ''VALUES '' @ py_join '','' tuples;
          values2 = (if empty_values then values1 @ '' LIMIT 0'' else values1);
          values3 = (if truthy alias
                     then ''('' @ values2 @ '') AS '' @ (case alias of Some a \<Rightarrow> a | None \<Rightarrow> [])
                          @ ''('' @ py_join '','' (map (\<lambda>col. [dq] @ col @ [dq]) col_names) @ '')''
                     else values2)
      in if sel_all_from then ''SELECT * FROM '' @ values3 else values3)"

definition gen_values :: "pyrow list \<Rightarrow> string list \<Rightarrow> string option \<Rightarrow> bool \<Rightarrow> error + string" where
  "gen_values rows0 cols alias sel_all_from =
     (let empty_values = (rows0 = []);
          rows = (if rows0 = [] then [ListRow []] else rows0);
          col_types = map col_type_of cols;
          col_names = map col_name_of cols
      in case (if (case rows of [] \<Rightarrow> False | row # rest \<Rightarrow> is_dict row)
               then (if cols = [] then Inl ColumnsNeededForPatchError
                     else convert_dict_rows_to_lists rows col_names)
               else Inr (map row_seq rows)) of
           Inl e \<Rightarrow> Inl e
         | Inr list_rows \<Rightarrow>
             (case sequence (map (\<lambda>row. row_to_sql_values row col_types) list_rows) of
                Inl e \<Rightarrow> Inl e
              | Inr tuples \<Rightarrow>
                  Inr (format_values empty_values tuples col_names alias sel_all_from)))"

text \<open>A value \<open>_to_sql_value\<close> can serialise: \<open>None\<close> or a value of a class with a
  serialiser.\<close>

definition serialisable :: "pyval \<Rightarrow> bool" where
  "serialisable v = (v = PyNone \<or> PG_VALUE_SERIALIZERS v \<noteq> None)"

subsection \<open>Views and the renderer\<close>

text \<open>
  The two configuration values the engine reads (\<open>pgmock.config\<close>), passed explicitly.
\<close>

record config =
  safe_mode :: bool
  replace_new_patch_aliases :: bool

record slice =
  start :: int
  stop :: int

record PatchParams =
  patch_alias :: "string option"
  select_all_from :: bool
  orig_alias :: "string option"

definition PatchParams_init :: "string option \<Rightarrow> bool \<Rightarrow> string option \<Rightarrow> PatchParams" where
  "PatchParams_init p_alias sel_all o_alias =
     \<lparr>patch_alias = p_alias, select_all_from = sel_all,
      orig_alias = (if truthy o_alias then o_alias else p_alias)\<rparr>"

record View =
  bounds :: slice
  patch :: "slice option"
  patch_params :: PatchParams

definition View_init :: "slice \<Rightarrow> slice option \<Rightarrow> PatchParams option \<Rightarrow> View" where
  "View_init b p pp =
     \<lparr>bounds = b, patch = p,
      patch_params = (case pp of None \<Rightarrow> PatchParams_init None False None | Some params \<Rightarrow> params)\<rparr>"

definition shift :: "slice \<Rightarrow> int \<Rightarrow> slice" where
  "shift s offset = \<lparr>start = start s + offset, stop = stop s + offset\<rparr>"

definition from_offset :: "View \<Rightarrow> int \<Rightarrow> View" where
  "from_offset v offset =
     View_init (shift (bounds v) offset)
       (case patch v of None \<Rightarrow> None | Some p \<Rightarrow> Some (shift p offset))
       (Some (patch_params v))"

definition check_is_patchable :: "View \<Rightarrow> string list \<Rightarrow> error + unit" where
  "check_is_patchable v cols =
     (if patch v = None then Inl UnpatchableError
      else if truthy (patch_alias (patch_params v)) \<and> cols = [] then Inl ColumnsNeededForPatchError
      else Inr ())"

record RenderSQL =
  stripped_sql :: "string option"
  raw_sql :: string
  search_sql :: string

definition RenderSQL_init :: "config \<Rightarrow> string \<Rightarrow> error + RenderSQL" where
  "RenderSQL_init cfg sql =
     (if safe_mode cfg
      then (case strip_comments_and_string_literals sql of
              Inl e \<Rightarrow> Inl e
            | Inr stripped \<Rightarrow>
                (if length stripped \<noteq> length sql then Inl AssertionError
                 else Inr \<lparr>stripped_sql = Some stripped, raw_sql = sql,
                           search_sql = (if stripped \<noteq> [] then stripped else sql)\<rparr>))
      else Inr \<lparr>stripped_sql = None, raw_sql = sql, search_sql = sql\<rparr>)"

record Renderer =
  rendering_sql :: RenderSQL
  views :: "View list"

text \<open>The first argument of \<open>Renderer(sql, view)\<close> is a string or a \<open>RenderSQL\<close>; the second
  is absent, one \<open>View\<close> or a list of them.\<close>

datatype sql_arg = SqlStr string | SqlRender RenderSQL

datatype view_arg = NoView | OneView View | ViewList "View list"

definition slice_of :: "'a list \<Rightarrow> slice \<Rightarrow> 'a list" where
  "slice_of xs s = py_slice xs (start s) (stop s)"

text \<open>The loop of the constructor over adjacent views: some right view starts before its
  left neighbour stops.\<close>

fun nested :: "View list \<Rightarrow> bool" where
  "nested [] = False"
| "nested [v] = False"
| "nested (left_view # right_view # vs) =
     (start (bounds right_view) < stop (bounds left_view) \<or> nested (right_view # vs))"

definition fragments :: "string \<Rightarrow> View list \<Rightarrow> string list" where
  "fragments raw vs = map (\<lambda>v. slice_of raw (bounds v)) vs"

definition Renderer_init :: "config \<Rightarrow> sql_arg \<Rightarrow> view_arg \<Rightarrow> error + Renderer" where
  "Renderer_init cfg sql view_arg =
     (case (case sql of SqlStr s \<Rightarrow> RenderSQL_init cfg s | SqlRender r \<Rightarrow> Inr r) of
        Inl e \<Rightarrow> Inl e
      | Inr rsql \<Rightarrow>
          (let vs = (case view_arg of
                       NoView \<Rightarrow> [View_init \<lparr>start = 0, stop = int (length (raw_sql rsql))\<rparr> None None]
                     | OneView v \<Rightarrow> [v]
                     | ViewList l \<Rightarrow> l)
           in if nested vs then Inl (NestedMatchError (fragments (raw_sql rsql) vs))
              else Inr \<lparr>rendering_sql = rsql, views = vs\<rparr>))"

definition view :: "Renderer \<Rightarrow> error + View" where
  "view self =
     (case views self of
        [v] \<Rightarrow> Inr v
      | _ \<Rightarrow> Inl (MultipleMatchError (fragments (raw_sql (rendering_sql self)) (views self))))"

definition sql_view :: "Renderer \<Rightarrow> error + string" where
  "sql_view self = rbind (view self) (\<lambda>v. Inr (slice_of (raw_sql (rendering_sql self)) (bounds v)))"

definition search_view :: "Renderer \<Rightarrow> error + string" where
  "search_view self =
     rbind (view self) (\<lambda>v. Inr (slice_of (search_sql (rendering_sql self)) (bounds v)))"

text \<open>The argument of \<open>__getitem__\<close>: an integer or a slice.\<close>

datatype pyindex = Index int | Slice "int option" "int option" "int option"

definition Renderer_getitem :: "config \<Rightarrow> Renderer \<Rightarrow> pyindex \<Rightarrow> error + Renderer" where
  "Renderer_getitem cfg self index =
     (case index of
        Index i \<Rightarrow>
          rbind (py_getitem (views self) i)
            (\<lambda>v. Renderer_init cfg (SqlRender (rendering_sql self)) (OneView v))
      | Slice a b c \<Rightarrow>
          rbind (py_getslice (views self) a b c)
            (\<lambda>vs. Renderer_init cfg (SqlRender (rendering_sql self)) (ViewList vs)))"

definition body :: "config \<Rightarrow> Renderer \<Rightarrow> error + Renderer" where
  "body cfg self =
     rbind (view self) (\<lambda>v.
       case patch v of
         Some p \<Rightarrow> Renderer_init cfg (SqlRender (rendering_sql self))
                     (OneView (View_init p (Some p) None))
       | None \<Rightarrow> rbind (sql_view self) (\<lambda>frag. Inl NoMatchError))"

text \<open>\<open>statement(start, end=None)\<close>. \<open>end or start + 1\<close> takes \<open>start + 1\<close> when \<open>end\<close> is
  \<open>None\<close> and also when it is \<open>0\<close>.\<close>

definition end_or :: "int option \<Rightarrow> int \<Rightarrow> int" where
  "end_or end_i dflt = (case end_i of None \<Rightarrow> dflt | Some e \<Rightarrow> if e = 0 then dflt else e)"

definition total_len :: "string list \<Rightarrow> int" where
  "total_len parts = sum_list (map (\<lambda>part. int (length part)) parts)"

definition statement :: "config \<Rightarrow> Renderer \<Rightarrow> int \<Rightarrow> int option \<Rightarrow> error + Renderer" where
  "statement cfg self start_i end_i =
     rbind (search_view self) (\<lambda>sql.
       let parts = py_split '';'' sql;
           end_j = end_or end_i (start_i + 1)
       in if \<not> end_j \<ge> start_i then Inl AssertionError
          else if \<not> start_i \<ge> 0 then Inl AssertionError
          else if start_i \<ge> int (length parts) \<or> end_j > int (length parts)
          then Inl (StatementParseError (length parts) start_i end_j)
          else
            (let stmt_start = total_len (py_slice_to parts start_i) + start_i;
                 stmt_end = stmt_start + total_len (py_slice parts start_i end_j)
                              + (end_j - start_i - 1)
             in rbind (view self) (\<lambda>v.
                  Renderer_init cfg (SqlRender (rendering_sql self))
                    (OneView (from_offset (View_init \<lparr>start = stmt_start, stop = stmt_end\<rparr> None None)
                                (start (bounds v)))))))"

subsection \<open>Regular expressions\<close>

text \<open>
  The matchers search with Python's \<open>re\<close> module. The fragment of its pattern language that
  the five patterns of \<open>render.py\<close> use is embedded as a backtracking matcher:
  \<open>rmatch ic r s\<close> lists, in the order in which \<open>re\<close> tries them (a greedy star takes the
  longest repetition first, an alternation its left branch first), the remainders of \<open>s\<close>
  after a match of \<open>r\<close> at its front. \<open>ic\<close> is the flag \<open>re.IGNORECASE\<close>. The patterns
  are \<open>str\<close> patterns, so the classes are the Unicode ones: \<open>is_word\<close> is \<open>\w\<close>
  (\<open>str.isalnum\<close> or the underscore) and \<open>to_lower\<close> is the case folding of
  \<open>re.IGNORECASE\<close>, both on the code points 0 to 255.
\<close>

datatype regex =
    Lit char
  | Space
  | Word
  | Dot
  | Eps
  | Seq regex regex
  | Alt regex regex
  | Star regex
  | NotAhead regex

definition is_word :: "char \<Rightarrow> bool" where
  "is_word c = (let n = (of_char c :: nat)
                in (48 \<le> n \<and> n \<le> 57) \<or> (65 \<le> n \<and> n \<le> 90) \<or> n = 95 \<or> (97 \<le> n \<and> n \<le> 122)
                   \<or> n = 0xAA \<or> n = 0xB2 \<or> n = 0xB3 \<or> n = 0xB5 \<or> n = 0xB9 \<or> n = 0xBA
                   \<or> (0xBC \<le> n \<and> n \<le> 0xBE) \<or> (0xC0 \<le> n \<and> n \<le> 0xD6)
                   \<or> (0xD8 \<le> n \<and> n \<le> 0xF6) \<or> (0xF8 \<le> n \<and> n \<le> 0xFF))"

definition to_lower :: "char \<Rightarrow> char" where
  "to_lower c = (let n = (of_char c :: nat)
                 in if (65 \<le> n \<and> n \<le> 90) \<or> (0xC0 \<le> n \<and> n \<le> 0xDE \<and> n \<noteq> 0xD7)
                    then char_of (n + 32) else c)"

definition chr_eq :: "bool \<Rightarrow> char \<Rightarrow> char \<Rightarrow> bool" where
  "chr_eq ic c d = (if ic then to_lower c = to_lower d else c = d)"

fun rmatch :: "bool \<Rightarrow> regex \<Rightarrow> string \<Rightarrow> string list" where
  "rmatch ic (Lit c) s = (case s of [] \<Rightarrow> [] | d # ds \<Rightarrow> if chr_eq ic c d then [ds] else [])"
| "rmatch ic Space s = (case s of [] \<Rightarrow> [] | d # ds \<Rightarrow> if py_isspace d then [ds] else [])"
| "rmatch ic Word s = (case s of [] \<Rightarrow> [] | d # ds \<Rightarrow> if is_word d then [ds] else [])"
| "rmatch ic Dot s = (case s of [] \<Rightarrow> [] | d # ds \<Rightarrow> if d \<noteq> nl then [ds] else [])"
| "rmatch ic Eps s = [s]"
| "rmatch ic (Seq a b) s = concat (map (rmatch ic b) (rmatch ic a s))"
| "rmatch ic (Alt a b) s = rmatch ic a s @ rmatch ic b s"
| "rmatch ic (Star r) s =
     concat (map (\<lambda>s'. if length s' < length s then rmatch ic (Star r) s' else [])
               (rmatch ic r s)) @ [s]"
| "rmatch ic (NotAhead r) s = (if rmatch ic r s = [] then [s] else [])"

definition Plus :: "regex \<Rightarrow> regex" where
  "Plus r = Seq r (Star r)"

definition Opt :: "regex \<Rightarrow> regex" where
  "Opt r = Alt r Eps"

text \<open>\<open>lits s\<close> matches the string \<open>s\<close> itself: a literal part of a pattern, and
  \<open>re.escape(s)\<close>.\<close>

definition lits :: "string \<Rightarrow> regex" where
  "lits s = foldr (\<lambda>c r. Seq (Lit c) r) s Eps"

definition seqs :: "regex list \<Rightarrow> regex" where
  "seqs rs = foldr Seq rs Eps"

text \<open>
  \<open>finditer_pre ic pre r s pos\<close> is \<open>re.finditer\<close> for the pattern \<open>pre\<close> followed by \<open>r\<close>,
  on the text \<open>s\<close> that starts at position \<open>pos\<close>: the matches from left to right,
  non-overlapping, each as the position where it starts, the position where its group
  \<open>pre\<close> ends and the position where it ends. A match is the first alternative of the
  backtracking search at the leftmost position that has one. After an empty match the
  search moves on by one character.
\<close>

definition rmatch_pre :: "bool \<Rightarrow> regex \<Rightarrow> regex \<Rightarrow> string \<Rightarrow> (string \<times> string) list" where
  "rmatch_pre ic pre r s = concat (map (\<lambda>m. map (\<lambda>e. (m, e)) (rmatch ic r m)) (rmatch ic pre s))"

function finditer_pre :: "bool \<Rightarrow> regex \<Rightarrow> regex \<Rightarrow> string \<Rightarrow> nat \<Rightarrow> (nat \<times> nat \<times> nat) list" where
  "finditer_pre ic pre r s pos =
     (case rmatch_pre ic pre r s of
        (m, e) # alternatives \<Rightarrow>
          (pos, pos + (length s - length m), pos + (length s - length e))
          # (if length e < length s
             then finditer_pre ic pre r e (pos + (length s - length e))
             else (case s of [] \<Rightarrow> [] | c # cs \<Rightarrow> finditer_pre ic pre r cs (pos + 1)))
      | [] \<Rightarrow> (case s of [] \<Rightarrow> [] | c # cs \<Rightarrow> finditer_pre ic pre r cs (pos + 1)))"
  by pat_completeness auto
termination
  by (relation "measure (\<lambda>(ic, pre, r, s, pos). length s)") auto

declare finditer_pre.simps [simp del]

definition finditer :: "bool \<Rightarrow> regex \<Rightarrow> string \<Rightarrow> (nat \<times> nat) list" where
  "finditer ic r s = map (\<lambda>(a, m, e). (a, e)) (finditer_pre ic Eps r s 0)"

text \<open>
  The replacement argument of \<open>re.sub\<close> is a template. \<open>re\<close> reads it token by token (a
  backslash and the character after it are one token, \<open>tokenize\<close>), always one token
  ahead, so that a template ending in a single backslash is refused as soon as that
  backslash is the next token (\<open>bad_next\<close>). \<open>parse_template ts m\<close> is the text that the
  tokens \<open>ts\<close> stand for in a pattern without groups, \<open>m\<close> being the matched text:
  \<open>\g<0>\<close> is the match, a reference to another group is an error (\<open>IndexError\<close> for a
  name that is an identifier, \<open>re.error\<close> otherwise), \<open>\0\<close> with up to two octal digits and
  \<open>\ddd\<close> are octal escapes, \<open>\a \b \f \n \r \t \v \\\<close> are the control characters
  and the backslash, a backslash before another ASCII letter is an error, and a backslash
  before anything else stays. This is the template language of CPython 3.12; a template
  without a backslash stands for itself in every version.
\<close>

fun tokenize :: "string \<Rightarrow> string list" where
  "tokenize [] = []"
| "tokenize [c] = [[c]]"
| "tokenize (c # d # cs) = (if c = bsl then [c, d] # tokenize cs else [c] # tokenize (d # cs))"

definition bad_next :: "string list \<Rightarrow> bool" where
  "bad_next ts = (case ts of [] \<Rightarrow> False | u # us \<Rightarrow> u = [bsl])"

definition is_digit :: "char \<Rightarrow> bool" where
  "is_digit c = (48 \<le> (of_char c :: nat) \<and> (of_char c :: nat) \<le> 57)"

definition is_octdigit :: "char \<Rightarrow> bool" where
  "is_octdigit c = (48 \<le> (of_char c :: nat) \<and> (of_char c :: nat) \<le> 55)"

definition digit_of :: "char \<Rightarrow> nat" where
  "digit_of c = (of_char c :: nat) - 48"

definition is_ascii_letter :: "char \<Rightarrow> bool" where
  "is_ascii_letter c = (let n = (of_char c :: nat)
                        in (65 \<le> n \<and> n \<le> 90) \<or> (97 \<le> n \<and> n \<le> 122))"

definition is_xid_start :: "char \<Rightarrow> bool" where
  "is_xid_start c = (let n = (of_char c :: nat)
                     in (65 \<le> n \<and> n \<le> 90) \<or> (97 \<le> n \<and> n \<le> 122)
                        \<or> n = 0xAA \<or> n = 0xB5 \<or> n = 0xBA \<or> (0xC0 \<le> n \<and> n \<le> 0xD6)
                        \<or> (0xD8 \<le> n \<and> n \<le> 0xF6) \<or> (0xF8 \<le> n \<and> n \<le> 0xFF))"

definition py_isidentifier :: "string \<Rightarrow> bool" where
  "py_isidentifier name =
     (case name of
        [] \<Rightarrow> False
      | c # cs \<Rightarrow> (is_xid_start c \<or> c = CHR ''_'')
                  \<and> list_all (\<lambda>d. is_xid_start d \<or> d = CHR ''_'' \<or> is_digit d \<or> d = CHR 0xB7) cs)"

definition ESCAPES :: "char \<Rightarrow> char option" where
  "ESCAPES c =
     (if c = CHR ''a'' then Some (CHR 0x07)
      else if c = CHR ''b'' then Some (CHR 0x08)
      else if c = CHR ''f'' then Some (CHR 0x0C)
      else if c = CHR ''n'' then Some (CHR 0x0A)
      else if c = CHR ''r'' then Some (CHR 0x0D)
      else if c = CHR ''t'' then Some (CHR 0x09)
      else if c = CHR ''v'' then Some (CHR 0x0B)
      else if c = bsl then Some bsl
      else None)"

text \<open>
  \<open>octal_escape c ts\<close> reads what follows the token of a backslash and the digit \<open>c\<close>:
  the character and the tokens left, or the error.
\<close>

definition octal_escape :: "char \<Rightarrow> string list \<Rightarrow> error + (char \<times> string list)" where
  "octal_escape c ts =
     (if c = CHR ''0''
      then (case ts of
              [d] # ts1 \<Rightarrow>
                (if is_octdigit d
                 then (if bad_next ts1 then Inl ReError
                       else (case ts1 of
                               [e] # ts2 \<Rightarrow>
                                 (if is_octdigit e
                                  then (if bad_next ts2 then Inl ReError
                                        else Inr (char_of ((8 * digit_of d + digit_of e) mod 256), ts2))
                                  else Inr (char_of (digit_of d), ts1))
                             | _ \<Rightarrow> Inr (char_of (digit_of d), ts1)))
                 else Inr (CHR 0x00, ts))
            | _ \<Rightarrow> Inr (CHR 0x00, ts))
      else (case ts of
              [d] # ts1 \<Rightarrow>
                (if is_digit d
                 then (if bad_next ts1 then Inl ReError
                       else (case ts1 of
                               [e] # ts2 \<Rightarrow>
                                 (if is_octdigit c \<and> is_octdigit d \<and> is_octdigit e
                                  then (if bad_next ts2 then Inl ReError
                                        else if 64 * digit_of c + 8 * digit_of d + digit_of e > 255
                                        then Inl ReError
                                        else Inr (char_of (64 * digit_of c + 8 * digit_of d + digit_of e),
                                                  ts2))
                                  else Inl ReError)
                             | _ \<Rightarrow> Inl ReError))
                 else Inl ReError)
            | _ \<Rightarrow> Inl ReError))"

lemma octal_escape_length:
  "octal_escape c ts = Inr (x, ts') \<Longrightarrow> length ts' \<le> length ts"
  by (auto simp: octal_escape_def split: if_splits list.splits)

function parse_template :: "string list \<Rightarrow> string \<Rightarrow> error + string"
  and getuntil :: "string list \<Rightarrow> string \<Rightarrow> string \<Rightarrow> error + string" where
  "parse_template [] m = Inr []"
| "parse_template (t # ts) m =
     (if bad_next ts then Inl ReError
      else (case t of
              [b, c] \<Rightarrow>
                (if c = CHR ''g''
                 then (case ts of
                         [] \<Rightarrow> Inl ReError
                       | u # us \<Rightarrow> if u \<noteq> ''<'' \<or> bad_next us then Inl ReError
                                   else getuntil us [] m)
                 else if is_digit c
                 then (case octal_escape c ts of
                         Inl e \<Rightarrow> Inl e
                       | Inr (x, ts') \<Rightarrow> rbind (parse_template ts' m) (\<lambda>r. Inr (x # r)))
                 else (case ESCAPES c of
                         Some x \<Rightarrow> rbind (parse_template ts m) (\<lambda>r. Inr (x # r))
                       | None \<Rightarrow> if is_ascii_letter c then Inl ReError
                                 else rbind (parse_template ts m) (\<lambda>r. Inr (b # c # r))))
            | _ \<Rightarrow> rbind (parse_template ts m) (\<lambda>r. Inr (t @ r))))"
| "getuntil [] name m = Inl ReError"
| "getuntil (u # us) name m =
     (if bad_next us then Inl ReError
      else if u = ''>''
      then (if name = [] then Inl ReError
            else if list_all is_digit name
            then (if list_all (\<lambda>d. d = CHR ''0'') name
                  then rbind (parse_template us m) (\<lambda>r. Inr (m @ r))
                  else Inl ReError)
            else if py_isidentifier name then Inl IndexError
            else Inl ReError)
      else getuntil us (name @ u) m)"
  by pat_completeness auto
termination
  by (relation "measure (\<lambda>x. case x of Inl (ts, m) \<Rightarrow> length ts | Inr (ts, name, m) \<Rightarrow> length ts)")
     (auto dest: octal_escape_length)

declare parse_template.simps [simp del] getuntil.simps [simp del]

definition expand_template :: "string \<Rightarrow> string \<Rightarrow> error + string" where
  "expand_template template m =
     (if bsl \<notin> set template then Inr template
      else if bad_next (tokenize template) then Inl ReError
      else parse_template (tokenize template) m)"

text \<open>
  \<open>re_sub_word lit rep prev s\<close> is \<open>re.sub\<close> of the pattern \<open>\b\<close> followed by the literal
  \<open>lit\<close> (case-sensitive), every match replaced by the text \<open>rep\<close> that the template
  stands for, on the text \<open>s\<close> whose preceding character is a word character iff \<open>prev\<close>.
\<close>

function re_sub_word :: "string \<Rightarrow> string \<Rightarrow> bool \<Rightarrow> string \<Rightarrow> string" where
  "re_sub_word lit rep prev [] = []"
| "re_sub_word lit rep prev (c # cs) =
     (if lit \<noteq> [] \<and> prev \<noteq> is_word c \<and> starts_with (c # cs) lit
      then rep @ re_sub_word lit rep (is_word (last lit)) (drop (length lit) (c # cs))
      else c # re_sub_word lit rep (is_word c) cs)"
  by pat_completeness auto
termination
  by (relation "measure (\<lambda>(lit, rep, prev, s). length s)") auto

text \<open>\<open>re_sub search replace_alias patched_sql\<close> for \<open>search\<close> the pattern \<open>\b\<close>, the escaped
  \<open>orig\<close> and an escaped dot: the template is parsed first, then the matches are
  replaced.\<close>

definition re_sub_alias :: "string \<Rightarrow> string \<Rightarrow> string \<Rightarrow> error + string" where
  "re_sub_alias orig replace_alias patched_sql =
     rbind (expand_template replace_alias (orig @ ''.'')) (\<lambda>rep.
       Inr (re_sub_word (orig @ ''.'') rep False patched_sql))"

subsection \<open>The matchers\<close>

definition subquery_regex :: "string \<Rightarrow> regex" where
  "subquery_regex alias =
     seqs [Lit (CHR '')''), Star Space, Opt (Seq (lits ''as'') (Plus Space)), lits alias,
           NotAhead Word]"

definition subquery :: "config \<Rightarrow> Renderer \<Rightarrow> string \<Rightarrow> error + Renderer" where
  "subquery cfg self alias =
     rbind (search_view self) (\<lambda>sql.
       let matches = finditer True (subquery_regex alias) sql
       in if matches = [] then Inl NoMatchError
          else rbind (view self) (\<lambda>v.
            rbind (sequence (map (\<lambda>(right_paren, alias_end).
                     rbind (find_enclosing_paren sql (int right_paren) (- 1)) (\<lambda>left_paren.
                       Inr (from_offset
                              (View_init \<lparr>start = left_paren + 1, stop = int right_paren\<rparr>
                                 (Some \<lparr>start = left_paren, stop = int alias_end\<rparr>)
                                 (Some (PatchParams_init (Some alias) False None)))
                              (start (bounds v))))) matches))
              (\<lambda>vs. Renderer_init cfg (SqlRender (rendering_sql self)) (ViewList vs))))"

definition cte_regex :: "string \<Rightarrow> regex" where
  "cte_regex alias =
     seqs [Alt (Seq (lits ''with'') (Plus Space)) (Seq (Lit (CHR '','')) (Star Space)),
           lits alias,
           Alt (seqs [Star Space, Lit (CHR ''(''), Star Dot, Lit (CHR '')''), Star Space])
               (Plus Space),
           lits ''as'', Star Space, Lit (CHR ''('')]"

definition cte :: "config \<Rightarrow> Renderer \<Rightarrow> string \<Rightarrow> error + Renderer" where
  "cte cfg self alias =
     rbind (search_view self) (\<lambda>sql.
       let matches = finditer True (cte_regex alias) sql
       in if matches = [] then Inl NoMatchError
          else rbind (view self) (\<lambda>v.
            rbind (sequence (map (\<lambda>(match_start, match_end).
                     let left_paren = int match_end - 1
                     in rbind (find_enclosing_paren sql left_paren 1) (\<lambda>right_paren.
                          let cte_bounds = \<lparr>start = left_paren + 1, stop = right_paren\<rparr>
                          in Inr (from_offset
                                    (View_init cte_bounds (Some cte_bounds)
                                       (Some (PatchParams_init (Some ''pgmock'') True None)))
                                    (start (bounds v))))) matches))
              (\<lambda>vs. Renderer_init cfg (SqlRender (rendering_sql self)) (ViewList vs))))"

definition insert_into_regex :: "string \<Rightarrow> regex" where
  "insert_into_regex table_name =
     seqs [lits ''insert'', Plus Space, lits ''into'', Plus Space, lits table_name,
           Alt (Seq (Star Space) (Lit (CHR ''('')))
               (Seq (Plus Space) (Alt Word (Alt (Lit (CHR ''/'')) (Lit (CHR ''-'')))))]"

definition insert_into :: "config \<Rightarrow> Renderer \<Rightarrow> string \<Rightarrow> error + Renderer" where
  "insert_into cfg self table_name =
     rbind (search_view self) (\<lambda>sql.
       let matches = finditer True (insert_into_regex table_name) sql
       in if matches = [] then Inl NoMatchError
          else rbind (view self) (\<lambda>v.
            rbind (sequence (map (\<lambda>(insert_start, match_end).
                     let insert_end = int match_end - 1;
                         end_idx = get_end_statement sql insert_end
                     in rbind (py_getitem sql insert_end) (\<lambda>ch.
                        rbind (if ch = CHR ''(''
                               then rbind (find_enclosing_paren sql insert_end 1) (\<lambda>found.
                                      let right_paren = found + 1
                                      in Inr (if py_strip (py_slice sql right_paren end_idx) \<noteq> []
                                              then right_paren else insert_end))
                               else Inr insert_end) (\<lambda>insert_end'.
                          Inr (from_offset
                                 (View_init \<lparr>start = int insert_start, stop = end_idx\<rparr>
                                    (Some \<lparr>start = insert_end', stop = end_idx\<rparr>) None)
                                 (start (bounds v)))))) matches))
              (\<lambda>vs. Renderer_init cfg (SqlRender (rendering_sql self)) (ViewList vs))))"

definition create_table_as_regex :: "string \<Rightarrow> regex" where
  "create_table_as_regex table_name =
     seqs [lits ''create'', Plus Space, lits ''table'', Plus Space, lits table_name,
           Alt (seqs [Star Space, Lit (CHR ''(''), Star Dot, Lit (CHR '')''), Star Space])
               (Plus Space),
           lits ''as'']"

definition create_table_as :: "config \<Rightarrow> Renderer \<Rightarrow> string \<Rightarrow> error + Renderer" where
  "create_table_as cfg self table_name =
     rbind (search_view self) (\<lambda>sql.
       let matches = finditer True (create_table_as_regex table_name) sql
       in if matches = [] then Inl NoMatchError
          else rbind (view self) (\<lambda>v.
            let vs = map (\<lambda>(create_start, cta_end).
                       let end_idx = get_end_statement sql (int create_start)
                       in from_offset
                            (View_init \<lparr>start = int create_start, stop = end_idx\<rparr>
                               (Some \<lparr>start = int cta_end, stop = end_idx\<rparr>)
                               (Some (PatchParams_init (Some ''pgmock'') True None)))
                            (start (bounds v))) matches
            in Renderer_init cfg (SqlRender (rendering_sql self)) (ViewList vs)))"

definition table_pre_regex :: regex where
  "table_pre_regex = Seq (Alt (lits ''from'') (lits ''join'')) (Plus Space)"

definition table_regex :: "string \<Rightarrow> string option \<Rightarrow> regex" where
  "table_regex table_name alias =
     (if truthy alias
      then seqs [lits table_name, Plus Space, Opt (Seq (lits ''as'') (Plus Space)),
                 lits (case alias of Some a \<Rightarrow> a | None \<Rightarrow> []), NotAhead Word]
      else seqs [lits table_name, NotAhead Word])"

text \<open>\<open>table\<close> differs from the five matchers above in its last line: it builds the new
  renderer from the string it searched, \<open>Renderer(sql, views)\<close>, and does not move its
  views by the start of the current view.\<close>

definition table :: "config \<Rightarrow> Renderer \<Rightarrow> string \<Rightarrow> string option \<Rightarrow> error + Renderer" where
  "table cfg self table_name alias =
     rbind (search_view self) (\<lambda>sql.
       let matches = finditer_pre True table_pre_regex (table_regex table_name alias) sql 0
       in if matches = [] then Inl NoMatchError
          else
            (let vs = map (\<lambda>(match_start, pre_end, match_end).
                        let bnds = \<lparr>start = int pre_end, stop = int match_end\<rparr>;
                            p_alias = (if truthy alias then alias
                                       else if \<not> str_contains ''.'' table_name then Some table_name
                                       else (case py_split ''.'' table_name of
                                               a # b # rest \<Rightarrow> Some b | _ \<Rightarrow> None))
                        in View_init bnds (Some bnds)
                             (Some (PatchParams_init p_alias False
                                      (if truthy alias then alias else Some table_name)))) matches
             in Renderer_init cfg (SqlStr sql) (ViewList vs)))"

subsection \<open>The rewrite operation\<close>

text \<open>The alias rewrite at the end of one turn of the loop of \<open>patch\<close>.\<close>

definition replace_aliases :: "config \<Rightarrow> PatchParams \<Rightarrow> string \<Rightarrow> error + string" where
  "replace_aliases cfg patch_args patched_sql =
     (if replace_new_patch_aliases cfg
      then (if truthy (patch_alias patch_args) \<and> orig_alias patch_args \<noteq> patch_alias patch_args
            then (case (orig_alias patch_args, patch_alias patch_args) of
                    (Some orig, Some palias) \<Rightarrow>
                      (if \<not> length orig \<ge> length palias then Inl AssertionError
                       else re_sub_alias orig (py_rjust palias (length orig) @ ''.'') patched_sql)
                  | _ \<Rightarrow> Inl TypeError)
            else Inr patched_sql)
      else Inr patched_sql)"

text \<open>
  The loop of \<open>patch\<close> over \<open>rendered.views\<close>, with the variables \<open>adjustment\<close> and
  \<open>patched_sql\<close> as arguments and their final values as the result. \<open>offset\<close> is
  \<open>Some self.view.bounds.start\<close> when a selector was given and \<open>None\<close> otherwise.
\<close>

fun patch_loop :: "config \<Rightarrow> pyrow list \<Rightarrow> string list \<Rightarrow> int option \<Rightarrow> View list \<Rightarrow> int \<Rightarrow> string
                   \<Rightarrow> error + (int \<times> string)" where
  "patch_loop cfg rows cols offset [] adjustment patched_sql = Inr (adjustment, patched_sql)"
| "patch_loop cfg rows cols offset (rendered_view # rest) adjustment patched_sql =
     (let patch_args = patch_params rendered_view in
      rbind (check_is_patchable rendered_view cols) (\<lambda>u.
      rbind (gen_values rows cols (patch_alias patch_args) (select_all_from patch_args)) (\<lambda>vals.
        case patch rendered_view of
          None \<Rightarrow> Inl UnpatchableError
        | Some p0 \<Rightarrow>
            (let p = (case offset of None \<Rightarrow> p0 | Some off \<Rightarrow> shift p0 off);
                 patched1 = py_slice_to patched_sql (start p - adjustment) @ '' '' @ vals
                            @ py_slice_from patched_sql (stop p - adjustment)
             in rbind (replace_aliases cfg patch_args patched1) (\<lambda>patched2.
                  patch_loop cfg rows cols offset rest
                    (adjustment + (stop p - start p - (int (length vals) + 1))) patched2)))))"

text \<open>
  The body of \<open>patch\<close> from the loop on. \<open>rendered\<close> is the renderer that
  \<open>selector.render(self.sql_view)\<close> returned, or \<open>None\<close> when no selector was given.
\<close>

definition patch_body :: "config \<Rightarrow> Renderer \<Rightarrow> Renderer option \<Rightarrow> pyrow list \<Rightarrow> string list
                          \<Rightarrow> error + Renderer" where
  "patch_body cfg self rendered rows cols =
     rbind (case rendered of
              None \<Rightarrow> Inr None
            | Some r \<Rightarrow> rbind (view self) (\<lambda>v. Inr (Some (start (bounds v))))) (\<lambda>offset.
     rbind (patch_loop cfg rows cols offset
              (views (case rendered of None \<Rightarrow> self | Some r \<Rightarrow> r)) 0
              (raw_sql (rendering_sql self))) (\<lambda>(adjustment, patched_sql).
     rbind (view self) (\<lambda>v.
       Renderer_init cfg (SqlStr patched_sql)
         (OneView (View_init \<lparr>start = start (bounds v), stop = stop (bounds v) - adjustment\<rparr>
                     None None)))))"

subsection \<open>The deferred operation chain\<close>

text \<open>
  A recorded operation: the name of a method of the renderer with its arguments. The last
  argument of \<open>Patch\<close> is what the call \<open>side_effect()\<close> returns in this rendering:
  \<open>None\<close> when no side effect was given, \<open>Some None\<close> when it returns \<open>None\<close> (the patch
  is skipped), \<open>Some (Some (rows, cols))\<close> otherwise.
\<close>

datatype RenderMethod =
    GetItem pyindex
  | Statement int "int option"
  | Body
  | Cte string
  | InsertInto string
  | Subquery string
  | Table string "string option"
  | CreateTableAs string
  | Patch "RenderMethod list option" "pyrow list" "string list"
          "(pyrow list \<times> string list) option option"

text \<open>\<open>apply_method\<close> is the dispatch \<open>getattr(renderer, name)(*args, **kwargs)\<close>, and
  \<open>render_chain\<close> the loop of \<open>Renderable.render\<close> over the chain.\<close>

fun apply_method :: "config \<Rightarrow> Renderer \<Rightarrow> RenderMethod \<Rightarrow> error + Renderer"
  and render_chain :: "config \<Rightarrow> Renderer \<Rightarrow> RenderMethod list \<Rightarrow> error + Renderer" where
  "apply_method cfg self (GetItem index) = Renderer_getitem cfg self index"
| "apply_method cfg self (Statement start_i end_i) = statement cfg self start_i end_i"
| "apply_method cfg self Body = body cfg self"
| "apply_method cfg self (Cte alias) = cte cfg self alias"
| "apply_method cfg self (InsertInto table_name) = insert_into cfg self table_name"
| "apply_method cfg self (Subquery alias) = subquery cfg self alias"
| "apply_method cfg self (Table table_name alias) = table cfg self table_name alias"
| "apply_method cfg self (CreateTableAs table_name) = create_table_as cfg self table_name"
| "apply_method cfg self (Patch selector rows0 cols0 side_effect) =
     (case side_effect of
        Some next_side_effect \<Rightarrow>
          (if rows0 \<noteq> [] \<or> cols0 \<noteq> [] then Inl ValueError
           else (case next_side_effect of
                   None \<Rightarrow> Inr self
                 | Some (rows, cols) \<Rightarrow>
                     (case selector of
                        None \<Rightarrow> patch_body cfg self None rows cols
                      | Some chain \<Rightarrow>
                          rbind (sql_view self) (\<lambda>sv.
                          rbind (Renderer_init cfg (SqlStr sv) NoView) (\<lambda>r0.
                          rbind (render_chain cfg r0 chain) (\<lambda>rendered.
                            patch_body cfg self (Some rendered) rows cols))))))
      | None \<Rightarrow>
          (case selector of
             None \<Rightarrow> patch_body cfg self None rows0 cols0
           | Some chain \<Rightarrow>
               rbind (sql_view self) (\<lambda>sv.
               rbind (Renderer_init cfg (SqlStr sv) NoView) (\<lambda>r0.
               rbind (render_chain cfg r0 chain) (\<lambda>rendered.
                 patch_body cfg self (Some rendered) rows0 cols0)))))"
| "render_chain cfg renderer [] = Inr renderer"
| "render_chain cfg renderer (render_method # chain) =
     rbind (apply_method cfg renderer render_method) (\<lambda>renderer'.
       render_chain cfg renderer' chain)"

definition render :: "config \<Rightarrow> RenderMethod list \<Rightarrow> string \<Rightarrow> error + Renderer" where
  "render cfg chain sql =
     rbind (Renderer_init cfg (SqlStr sql) NoView) (\<lambda>renderer. render_chain cfg renderer chain)"

text \<open>\<open>pgmock.sql(query, selector)\<close> up to the conversion of the result through the
  database library: the text the final renderer selects.\<close>

definition sql_text :: "config \<Rightarrow> string \<Rightarrow> RenderMethod list \<Rightarrow> error + string" where
  "sql_text cfg query chain = rbind (render cfg chain query) sql_view"

definition default_config :: config where
  "default_config = \<lparr>safe_mode = False, replace_new_patch_aliases = True\<rparr>"

text \<open>The condition of the constructor as a predicate: every view stops before the next
  one starts.\<close>

definition views_ordered :: "View list \<Rightarrow> bool" where
  "views_ordered vs =
     list_all (\<lambda>i. stop (bounds (vs ! i)) \<le> start (bounds (vs ! Suc i))) [0..<length vs - 1]"

text \<open>\<open>with_sep sep ps\<close> is the text of the parts \<open>ps\<close>, each followed by the separator.\<close>

definition with_sep :: "string \<Rightarrow> string list \<Rightarrow> string" where
  "with_sep sep ps = concat (map (\<lambda>p. p @ sep) ps)"

text \<open>What the tuple of a row is made of when column specs are given: for each column, in
  order, the serialisation of the value of the row at that position under the type of the
  column, and of \<open>None\<close> where the row has no value at that position.\<close>

definition column_values :: "pyval list \<Rightarrow> string option list \<Rightarrow> (error + string) list" where
  "column_values row col_types =
     map (\<lambda>i. to_sql_value (if i < length row then row ! i else PyNone) (col_types ! i))
       [0..<length col_types]"





section \<open>Properties\<close>

text \<open>C5 claims that the masking pass succeeds on every input. The opening pattern also
  matches a double quote, for which \<open>_SPLITTER_REGEXES\<close> has no entry: on the two
  characters double quote, \<open>a\<close> the second turn of the loop looks the double quote up and
  raises \<open>KeyError\<close>.\<close>

theorem masking_double_quote_KeyError:
  "strip_comments_and_string_literals [dq, CHR ''a''] = Inl KeyError"
  by code_simp

text \<open>C7 claims that the scan starts one position past the index in the given direction.
  Going left from index 0 the slice \<open>sql[-1::-1]\<close> starts at the last character instead:
  on \<open>)(\<close> the balancer returns \<open>-1\<close> where nothing lies to the left of index 0.\<close>

theorem find_enclosing_paren_wraps_around:
  "find_enclosing_paren '')('' 0 (- 1) = Inr (- 1)"
  by (simp add: find_enclosing_paren_def py_slice_step_def py_getslice_def every_nth_def)

subsection \<open>Serialising values (C8, C9)\<close>

lemma to_sql_value_explicit:
  "PG_VALUE_SERIALIZERS v = Some s \<Longrightarrow> t \<noteq> [] \<Longrightarrow> to_sql_value v (Some t) = Inr (s @ ''::'' @ t)"
  by (simp add: to_sql_value_def)

lemma to_sql_value_inferred:
  "PG_VALUE_SERIALIZERS v = Some s \<Longrightarrow> \<not> truthy ct \<Longrightarrow>
   to_sql_value v ct = Inr (case PG_TYPES v of None \<Rightarrow> s | Some ty \<Rightarrow> s @ ''::'' @ ty)"
  by (cases v; cases ct) (auto simp: to_sql_value_def)

lemma to_sql_value_unsupported:
  "PG_VALUE_SERIALIZERS v = None \<Longrightarrow> v \<noteq> PyNone \<Longrightarrow>
   to_sql_value v ct = Inl (ValueSerializationError (py_str v) (py_type v))"
  by (cases v) (auto simp: to_sql_value_def)

lemma to_sql_value_PyNone:
  "to_sql_value PyNone ct =
     Inr (case ct of None \<Rightarrow> ''null'' | Some t \<Rightarrow> if t \<noteq> [] then ''null::'' @ t else ''null'')"
  by (cases ct) (auto simp: to_sql_value_def)

text \<open>C8, as stated: \<open>None\<close> is never given a cast, whatever the column annotation. With the
  annotation \<open>int\<close> the code emits \<open>null::int\<close> (the repository's test
  \<open>test_table_patch_w_type_hints\<close> patches \<open>None\<close> into a column \<open>int::int\<close>).\<close>

theorem to_sql_value_None_is_cast:
  "to_sql_value PyNone (Some ''int'') = Inr ''null::int''"
  by (simp add: to_sql_value_def)

text \<open>C8, amended: \<open>None\<close> serialises to \<open>null\<close> and is never given an inferred cast; a
  non-empty column type annotation is appended as the cast to every serialisable value,
  \<open>None\<close> included, and overrides the cast inferred from the kind of the value, which is
  used when there is no annotation; a value of any other kind fails with
  \<open>ValueSerializationError\<close> naming the value and its type.\<close>

theorem to_sql_value_casts:
  "(\<forall>ct. \<not> truthy ct \<longrightarrow> to_sql_value PyNone ct = Inr ''null'')
   \<and> (\<forall>t. t \<noteq> [] \<longrightarrow> to_sql_value PyNone (Some t) = Inr (''null::'' @ t))
   \<and> (\<forall>v s t. PG_VALUE_SERIALIZERS v = Some s \<and> t \<noteq> []
          \<longrightarrow> to_sql_value v (Some t) = Inr (s @ ''::'' @ t))
   \<and> (\<forall>v s ct. PG_VALUE_SERIALIZERS v = Some s \<and> \<not> truthy ct
          \<longrightarrow> to_sql_value v ct = Inr (case PG_TYPES v of None \<Rightarrow> s | Some ty \<Rightarrow> s @ ''::'' @ ty))
   \<and> (\<forall>v ct. PG_VALUE_SERIALIZERS v = None \<and> v \<noteq> PyNone
          \<longrightarrow> to_sql_value v ct = Inl (ValueSerializationError (py_str v) (py_type v)))"
proof (intro conjI allI impI)
  fix ct :: "string option" assume "\<not> truthy ct"
  then show "to_sql_value PyNone ct = Inr ''null''"
    by (cases ct) (auto simp: to_sql_value_PyNone)
next
  fix t :: string assume "t \<noteq> []"
  then show "to_sql_value PyNone (Some t) = Inr (''null::'' @ t)"
    by (simp add: to_sql_value_PyNone)
next
  fix v s and t :: string assume "PG_VALUE_SERIALIZERS v = Some s \<and> t \<noteq> []"
  then show "to_sql_value v (Some t) = Inr (s @ ''::'' @ t)"
    by (simp add: to_sql_value_explicit)
next
  fix v s ct assume "PG_VALUE_SERIALIZERS v = Some s \<and> \<not> truthy ct"
  then show "to_sql_value v ct = Inr (case PG_TYPES v of None \<Rightarrow> s | Some ty \<Rightarrow> s @ ''::'' @ ty)"
    by (simp add: to_sql_value_inferred)
next
  fix v ct assume "PG_VALUE_SERIALIZERS v = None \<and> v \<noteq> PyNone"
  then show "to_sql_value v ct = Inl (ValueSerializationError (py_str v) (py_type v))"
    by (simp add: to_sql_value_unsupported)
qed

theorem to_sql_value_casts_witness:
  "to_sql_value PyNone None = Inr ''null''
   \<and> to_sql_value PyNone (Some ''int'') = Inr ''null::int''
   \<and> to_sql_value (PyDate ''2017-06-01'') (Some ''text'') = Inr (quoted ''2017-06-01'' @ ''::text'')
   \<and> to_sql_value (PyDate ''2017-06-01'') None = Inr (quoted ''2017-06-01'' @ ''::DATE'')
   \<and> to_sql_value (PyOther ''<object>'' ''<class 'object'>'') (Some ''int'')
       = Inl (ValueSerializationError ''<object>'' ''<class 'object'>'')"
proof -
  note T = to_sql_value_casts
  have a: "to_sql_value PyNone None = Inr ''null''"
    using T by simp
  have b: "to_sql_value PyNone (Some ''int'') = Inr ''null::int''"
    using T by simp
  have c: "to_sql_value (PyDate ''2017-06-01'') (Some ''text'') = Inr (quoted ''2017-06-01'' @ ''::text'')"
    using T by simp
  have d: "to_sql_value (PyDate ''2017-06-01'') None = Inr (quoted ''2017-06-01'' @ ''::DATE'')"
    using T[THEN conjunct2, THEN conjunct2, THEN conjunct2, THEN conjunct1, rule_format,
            of "PyDate ''2017-06-01''" "quoted ''2017-06-01''" None]
    by simp
  have e: "to_sql_value (PyOther ''<object>'' ''<class 'object'>'') (Some ''int'')
       = Inl (ValueSerializationError ''<object>'' ''<class 'object'>'')"
    using T by simp
  from a b c d e show ?thesis by blast
qed

lemma map_zip_take:
  "map f (zip row cts) = map f (zip (take (length cts) row) cts)"
  by (metis (no_types) take_zip zip_eq_conv length_zip min.idem take_all order_refl
      min.cobounded2 length_take)

lemma row_to_sql_values_take:
  assumes "col_types \<noteq> []"
  shows "row_to_sql_values row col_types = row_to_sql_values (take (length col_types) row) col_types"
proof (cases "length col_types \<le> length row")
  case True
  let ?f = "\<lambda>(val, col_type). to_sql_value val col_type"
  have L: "row_to_sql_values row col_types =
      (case sequence (map ?f (zip row col_types)) of Inl e \<Rightarrow> Inl e
       | Inr parts \<Rightarrow> Inr (''('' @ py_join '','' parts @ '')''))"
    using True assms by (simp add: row_to_sql_values_def Let_def)
  have R: "row_to_sql_values (take (length col_types) row) col_types =
      (case sequence (map ?f (zip (take (length col_types) row) col_types)) of Inl e \<Rightarrow> Inl e
       | Inr parts \<Rightarrow> Inr (''('' @ py_join '','' parts @ '')''))"
    using True assms by (simp add: row_to_sql_values_def Let_def)
  have M: "map ?f (zip row col_types) = map ?f (zip (take (length col_types) row) col_types)"
    by (rule map_zip_take)
  show ?thesis unfolding L R M ..
next
  case False
  then show ?thesis by simp
qed

lemma sequence_length: "sequence rs = Inr xs \<Longrightarrow> length xs = length rs"
proof (induction rs arbitrary: xs)
  case Nil then show ?case by simp
next
  case (Cons r rs)
  then show ?case by (cases r) (auto split: sum.splits)
qed

lemma sequence_all_Inr:
  "(\<forall>r \<in> set rs. \<exists>x. r = Inr x) \<Longrightarrow> \<exists>xs. sequence rs = Inr xs"
proof (induction rs)
  case Nil then show ?case by simp
next
  case (Cons r rs)
  then obtain x xs where "r = Inr x" "sequence rs = Inr xs" by auto
  then show ?case by simp
qed

lemma to_sql_value_serialisable: "serialisable v \<Longrightarrow> \<exists>s. to_sql_value v ct = Inr s"
  by (cases ct) (auto simp: serialisable_def to_sql_value_def Let_def split: option.splits)

lemma row_to_sql_values_one_per_column:
  assumes "col_types \<noteq> []" "length col_types \<le> length row"
    and "\<forall>v \<in> set (take (length col_types) row). serialisable v"
  shows "\<exists>parts. length parts = length col_types \<and>
           row_to_sql_values row col_types = Inr (''('' @ py_join '','' parts @ '')'')"
proof -
  let ?rs = "map (\<lambda>(val, col_type). to_sql_value val col_type)
               (zip (take (length col_types) row) col_types)"
  have "\<forall>r \<in> set ?rs. \<exists>x. r = Inr x"
    using assms(3) to_sql_value_serialisable by (auto dest!: set_zip_leftD)
  from sequence_all_Inr[OF this] obtain parts where p: "sequence ?rs = Inr parts" by blast
  from sequence_length[OF p] assms(2) have "length parts = length col_types" by simp
  moreover have "row_to_sql_values row col_types = Inr (''('' @ py_join '','' parts @ '')'')"
    using assms(1,2) p
      map_zip_take[of "\<lambda>(val, col_type). to_sql_value val col_type" row col_types]
    by (simp add: row_to_sql_values_def Let_def)
  ultimately show ?thesis by blast
qed

lemma row_to_sql_values_pad:
  "length row < length col_types \<Longrightarrow>
   row_to_sql_values row col_types
     = row_to_sql_values (row @ replicate (length col_types - length row) PyNone) col_types"
  by (auto simp: row_to_sql_values_def Let_def)

lemma gen_values_ListRows:
  "rs \<noteq> [] \<Longrightarrow> gen_values (map ListRow rs) cols alias saf =
     (case sequence (map (\<lambda>row. row_to_sql_values row (map col_type_of cols)) rs) of
        Inl e \<Rightarrow> Inl e
      | Inr tuples \<Rightarrow> Inr (format_values False tuples (map col_name_of cols) alias saf))"
  by (cases rs) (simp_all add: gen_values_def Let_def is_dict_def comp_def)

lemma gen_values_take:
  assumes "cols \<noteq> []"
  shows "gen_values (map ListRow rs) cols alias saf
       = gen_values (map ListRow (map (take (length cols)) rs)) cols alias saf"
proof (cases "rs = []")
  case True
  then show ?thesis by simp
next
  case False
  have ct: "map col_type_of cols \<noteq> []" using assms by simp
  have eq: "map (\<lambda>row. row_to_sql_values row (map col_type_of cols)) rs
      = map (\<lambda>row. row_to_sql_values row (map col_type_of cols)) (map (take (length cols)) rs)"
    using row_to_sql_values_take[OF ct] by (simp add: comp_def)
  from False have ne: "map (take (length cols)) rs \<noteq> []" by simp
  show ?thesis
    unfolding gen_values_ListRows[OF False] gen_values_ListRows[OF ne] eq ..
qed

lemma map2_as_index:
  assumes "length cts \<le> length xs"
  shows "map (\<lambda>(val, col_type). f val col_type) (zip xs cts)
       = map (\<lambda>i. f (xs ! i) (cts ! i)) [0..<length cts]"
  using assms by (intro nth_equalityI) simp_all

lemma row_to_sql_values_exact:
  assumes "col_types \<noteq> []"
  shows "row_to_sql_values row col_types
       = (case sequence (column_values row col_types) of
            Inl e \<Rightarrow> Inl e
          | Inr parts \<Rightarrow> Inr (''('' @ py_join '','' parts @ '')''))"
proof -
  let ?n = "length col_types"
  let ?row = "if ?n > length row then row @ replicate (?n - length row) PyNone else row"
  have len: "?n \<le> length ?row" by simp
  have "map (\<lambda>(val, col_type). to_sql_value val col_type) (zip ?row col_types)
      = map (\<lambda>i. to_sql_value (?row ! i) (col_types ! i)) [0..<?n]"
    using len by (rule map2_as_index)
  also have "\<dots> = column_values row col_types"
    unfolding column_values_def
    by (intro map_cong refl) (auto simp: nth_append)
  finally have eq: "map (\<lambda>(val, col_type). to_sql_value val col_type) (zip ?row col_types)
      = column_values row col_types" .
  have "row_to_sql_values row col_types
      = (case sequence (map (\<lambda>(val, col_type). to_sql_value val col_type) (zip ?row col_types)) of
            Inl e \<Rightarrow> Inl e
          | Inr parts \<Rightarrow> Inr (''('' @ py_join '','' parts @ '')''))"
    using assms by (simp add: row_to_sql_values_def Let_def)
  then show ?thesis unfolding eq .
qed

lemma column_values_nth:
  "i < length col_types \<Longrightarrow>
   column_values row col_types ! i
     = to_sql_value (if i < length row then row ! i else PyNone) (col_types ! i)"
  by (simp add: column_values_def)

lemma column_values_append:
  "length col_types \<le> length row \<Longrightarrow>
   column_values (row @ extra) col_types = column_values row col_types"
  by (simp add: column_values_def nth_append)

text \<open>C9: with column specs given, the tuple of a positional row is made of exactly one
  serialised value per column: the value of the row at the position of the column, under
  the type of the column, and \<open>None\<close> (which serialises to \<open>null\<close>) only where the row is
  too short to have one. The values of the row past the last column are never read: any
  values appended to a row that already has one per column leave the result as it is, and
  raise nothing, and the whole \<open>VALUES\<close> expression is that of the rows cut to the number of
  columns.\<close>

theorem extra_row_values_dropped:
  assumes "col_types \<noteq> []" and "cols \<noteq> []"
  shows "row_to_sql_values row col_types
           = (case sequence (column_values row col_types) of
                Inl e \<Rightarrow> Inl e
              | Inr parts \<Rightarrow> Inr (''('' @ py_join '','' parts @ '')''))
       \<and> length (column_values row col_types) = length col_types
       \<and> (\<forall>i < length col_types.
             column_values row col_types ! i
               = to_sql_value (if i < length row then row ! i else PyNone) (col_types ! i))
       \<and> (length col_types \<le> length row
            \<longrightarrow> row_to_sql_values (row @ extra) col_types = row_to_sql_values row col_types)
       \<and> gen_values (map ListRow rs) cols alias saf
           = gen_values (map ListRow (map (take (length cols)) rs)) cols alias saf
       \<and> (rs \<noteq> []
            \<longrightarrow> gen_values (map ListRow rs) cols alias saf
                = (case sequence (map (\<lambda>row. row_to_sql_values row (map col_type_of cols)) rs) of
                     Inl e \<Rightarrow> Inl e
                   | Inr tuples \<Rightarrow>
                       Inr (format_values False tuples (map col_name_of cols) alias saf)))"
proof (intro conjI allI impI)
  show "row_to_sql_values row col_types
           = (case sequence (column_values row col_types) of
                Inl e \<Rightarrow> Inl e
              | Inr parts \<Rightarrow> Inr (''('' @ py_join '','' parts @ '')''))"
    using assms(1) by (rule row_to_sql_values_exact)
next
  show "length (column_values row col_types) = length col_types"
    by (simp add: column_values_def)
next
  fix i assume "i < length col_types"
  then show "column_values row col_types ! i
               = to_sql_value (if i < length row then row ! i else PyNone) (col_types ! i)"
    by (rule column_values_nth)
next
  assume "length col_types \<le> length row"
  then show "row_to_sql_values (row @ extra) col_types = row_to_sql_values row col_types"
    unfolding row_to_sql_values_exact[OF assms(1)] by (simp add: column_values_append)
next
  show "gen_values (map ListRow rs) cols alias saf
           = gen_values (map ListRow (map (take (length cols)) rs)) cols alias saf"
    using assms(2) by (rule gen_values_take)
next
  assume "rs \<noteq> []"
  then show "gen_values (map ListRow rs) cols alias saf
                = (case sequence (map (\<lambda>row. row_to_sql_values row (map col_type_of cols)) rs) of
                     Inl e \<Rightarrow> Inl e
                   | Inr tuples \<Rightarrow>
                       Inr (format_values False tuples (map col_name_of cols) alias saf))"
    by (rule gen_values_ListRows)
qed

theorem extra_row_values_dropped_witness:
  "row_to_sql_values [PyStr ''x'', PyInt 7, PyOther ''<object>'' ''<class 'object'>'']
       [None, Some ''int'']
     = Inr (''('' @ [sq] @ ''x'' @ [sq] @ '',7::int)'')
   \<and> row_to_sql_values [PyInt 1] [None, Some ''int''] = Inr ''(1,null::int)''
   \<and> gen_values [ListRow [PyInt 1, PyOther ''<object>'' ''<class 'object'>'']] [''a''] None False
       = Inr ''VALUES (1)''"
proof -
  have ne: "[None, Some ''int''] \<noteq> []" "[''a''] \<noteq> []"
    by simp_all
  note T = extra_row_values_dropped[OF ne]
  have a: "row_to_sql_values [PyStr ''x'', PyInt 7, PyOther ''<object>'' ''<class 'object'>'']
       [None, Some ''int'']
     = Inr (''('' @ [sq] @ ''x'' @ [sq] @ '',7::int)'')"
    unfolding T[THEN conjunct1]
    by (simp add: column_values_def to_sql_value_def py_str_int_def digit_char_def str_nat.simps
        quoted_def double_quotes_def upt_rec)
  have b: "row_to_sql_values [PyInt 1] [None, Some ''int''] = Inr ''(1,null::int)''"
    unfolding T[THEN conjunct1]
    by (simp add: column_values_def to_sql_value_def py_str_int_def digit_char_def str_nat.simps
        upt_rec)
  have r: "[[PyInt 1, PyOther ''<object>'' ''<class 'object'>'']] \<noteq> []" by simp
  have c: "gen_values [ListRow [PyInt 1, PyOther ''<object>'' ''<class 'object'>'']] [''a''] None False
       = Inr ''VALUES (1)''"
    using T[THEN conjunct2, THEN conjunct2, THEN conjunct2, THEN conjunct2, THEN conjunct2,
            rule_format, OF r, of None False]
    by (simp add: row_to_sql_values_def to_sql_value_def
        py_str_int_def digit_char_def col_type_of_def col_name_of_def format_values_def
        str_nat.simps)
  from a b c show ?thesis by (intro conjI)
qed

subsection \<open>Statements (C6, C10)\<close>

lemma py_clamp_nonneg: "0 \<le> i \<Longrightarrow> py_clamp n i = min (nat i) n"
  by (simp add: py_clamp_def)



lemma py_slice_from_nonneg: "0 \<le> a \<Longrightarrow> py_slice_from xs a = drop (nat a) xs"
  by (simp add: py_slice_from_def py_clamp_nonneg min_def)


lemma py_split_char_Cons:
  "py_split [c] (d # ds) =
     (if d = c then [] # py_split [c] ds
      else (case py_split [c] ds of [] \<Rightarrow> [[d]] | p # ps \<Rightarrow> (d # p) # ps))"
  by simp




lemma total_len_Cons [simp]: "total_len (p # ps) = int (length p) + total_len ps"
  by (simp add: total_len_def)

lemma total_len_Nil [simp]: "total_len [] = 0"
  by (simp add: total_len_def)

lemma total_len_nonneg: "0 \<le> total_len ps"
  by (induction ps) simp_all



lemma with_sep_simps [simp]:
  "with_sep sep [] = []" "with_sep sep (p # ps) = p @ sep @ with_sep sep ps"
  by (simp_all add: with_sep_def)




lemma search_view_Inr:
  "search_view self = Inr sql \<Longrightarrow>
   \<exists>v. views self = [v] \<and> view self = Inr v \<and> sql = slice_of (search_sql (rendering_sql self)) (bounds v)"
  by (auto simp: search_view_def view_def rbind_def split: list.splits sum.splits)



lemma statement_assertions:
  assumes "search_view self = Inr sql"
    and "start_i < 0 \<or> (\<exists>e. end_i = Some e \<and> e \<noteq> 0 \<and> e < start_i)"
  shows "statement cfg self start_i end_i = Inl AssertionError"
  using assms by (auto simp: statement_def rbind_def Let_def end_or_def)




text \<open>C10 claims that every call with \<open>end < start\<close> fails an assertion. \<open>end or start + 1\<close>
  replaces an \<open>end\<close> of \<open>0\<close> by \<open>start + 1\<close> before the assertions run, so
  \<open>statement(1, 0)\<close> passes them and selects statement 1. For a negative \<open>start\<close> and for
  any other \<open>end\<close> below \<open>start\<close> the assertion does fail (lemma \<open>statement_assertions\<close>).\<close>

theorem statement_end_zero_passes_assertions:
  "sql_text default_config ''a;b'' [Statement 1 (Some 0)] = Inr ''b''"
  by code_simp

subsection \<open>The ordering invariant (C3)\<close>

lemma views_ordered_nth:
  "views_ordered vs \<longleftrightarrow> (\<forall>i. Suc i < length vs \<longrightarrow> stop (bounds (vs ! i)) \<le> start (bounds (vs ! Suc i)))"
  by (auto simp: views_ordered_def list_all_iff)

lemma views_ordered_Cons2:
  "views_ordered (l # r # vs) \<longleftrightarrow> stop (bounds l) \<le> start (bounds r) \<and> views_ordered (r # vs)"
  unfolding views_ordered_nth
  apply (rule iffI)
   apply (rule conjI)
    apply (drule spec[of _ 0], simp)
   apply (intro allI impI)
   subgoal for i by (drule spec[of _ "Suc i"], simp)
  apply (intro allI impI)
  subgoal for i by (cases i) auto
  done

lemma nested_iff: "nested vs \<longleftrightarrow> \<not> views_ordered vs"
proof (induction vs rule: nested.induct)
  case 1 then show ?case by (simp add: views_ordered_def)
next
  case (2 v) then show ?case by (simp add: views_ordered_def)
next
  case (3 l r vs)
  then show ?case by (auto simp: views_ordered_Cons2)
qed

lemma Renderer_init_Inr:
  "Renderer_init cfg sql va = Inr r \<Longrightarrow> views_ordered (views r)"
  by (auto simp: Renderer_init_def Let_def nested_iff split: sum.splits if_splits)

lemma Renderer_init_nested:
  assumes "(case sql of SqlStr s \<Rightarrow> RenderSQL_init cfg s | SqlRender r \<Rightarrow> Inr r) = Inr rsql"
    and "\<not> views_ordered vs"
  shows "Renderer_init cfg sql (ViewList vs) = Inl (NestedMatchError (fragments (raw_sql rsql) vs))"
  using assms by (simp add: Renderer_init_def nested_iff)

lemma ordered_wellformed_pairwise:
  assumes "views_ordered vs" and "\<forall>v \<in> set vs. start (bounds v) \<le> stop (bounds v)"
  shows "i < j \<Longrightarrow> j < length vs \<Longrightarrow> stop (bounds (vs ! i)) \<le> start (bounds (vs ! j))"
proof (induction j)
  case 0 then show ?case by simp
next
  case (Suc j)
  have step: "stop (bounds (vs ! j)) \<le> start (bounds (vs ! Suc j))"
    using assms(1) Suc.prems(2) by (simp add: views_ordered_nth)
  show ?case
  proof (cases "i = j")
    case True with step show ?thesis by simp
  next
    case False
    with Suc have "stop (bounds (vs ! i)) \<le> start (bounds (vs ! j))" by simp
    moreover have "start (bounds (vs ! j)) \<le> stop (bounds (vs ! j))"
      using assms(2) Suc.prems(2) by simp
    ultimately show ?thesis using step by linarith
  qed
qed

lemma ordered_wellformed_sorted:
  assumes "views_ordered vs" and "\<forall>v \<in> set vs. start (bounds v) \<le> stop (bounds v)"
  shows "sorted (map (\<lambda>v. start (bounds v)) vs)"
proof -
  have "start (bounds (vs ! i)) \<le> start (bounds (vs ! j))" if "i < j" "j < length vs" for i j
  proof -
    have "start (bounds (vs ! i)) \<le> stop (bounds (vs ! i))" using assms(2) that by simp
    with ordered_wellformed_pairwise[OF assms that] show ?thesis by linarith
  qed
  then show ?thesis by (simp add: sorted_iff_nth_mono_less)
qed

lemma sequence_Inr_D: "rbind m f = Inr y \<Longrightarrow> \<exists>x. m = Inr x \<and> f x = Inr y"
  by (cases m) (simp_all add: rbind_def)

lemma getitem_ordered: "Renderer_getitem cfg self index = Inr r \<Longrightarrow> views_ordered (views r)"
  by (cases index) (auto simp: Renderer_getitem_def dest!: sequence_Inr_D dest: Renderer_init_Inr)

lemma statement_ordered: "statement cfg self s e = Inr r \<Longrightarrow> views_ordered (views r)"
  by (auto simp: statement_def Let_def dest!: sequence_Inr_D dest: Renderer_init_Inr split: if_splits)

lemma body_ordered: "body cfg self = Inr r \<Longrightarrow> views_ordered (views r)"
  by (auto simp: body_def dest!: sequence_Inr_D dest: Renderer_init_Inr split: option.splits)

lemma cte_ordered: "cte cfg self a = Inr r \<Longrightarrow> views_ordered (views r)"
  by (auto simp: cte_def Let_def dest!: sequence_Inr_D dest: Renderer_init_Inr split: if_splits)

lemma insert_into_ordered: "insert_into cfg self a = Inr r \<Longrightarrow> views_ordered (views r)"
  by (auto simp: insert_into_def Let_def dest!: sequence_Inr_D dest: Renderer_init_Inr split: if_splits)

lemma subquery_ordered: "subquery cfg self a = Inr r \<Longrightarrow> views_ordered (views r)"
  by (auto simp: subquery_def Let_def dest!: sequence_Inr_D dest: Renderer_init_Inr split: if_splits)

lemma table_ordered: "table cfg self t a = Inr r \<Longrightarrow> views_ordered (views r)"
  by (auto simp: table_def Let_def dest!: sequence_Inr_D dest: Renderer_init_Inr split: if_splits)

lemma create_table_as_ordered: "create_table_as cfg self a = Inr r \<Longrightarrow> views_ordered (views r)"
  by (auto simp: create_table_as_def Let_def dest!: sequence_Inr_D dest: Renderer_init_Inr split: if_splits)

lemma patch_body_Inr:
  assumes "patch_body cfg self rendered rows cols = Inr r"
  shows "\<exists>sql va. Renderer_init cfg sql va = Inr r"
proof -
  from sequence_Inr_D[OF assms[unfolded patch_body_def]] obtain offset where
    1: "rbind (patch_loop cfg rows cols offset
              (views (case rendered of None \<Rightarrow> self | Some r \<Rightarrow> r)) 0
              (raw_sql (rendering_sql self))) (\<lambda>(adjustment, patched_sql).
     rbind (view self) (\<lambda>v.
       Renderer_init cfg (SqlStr patched_sql)
         (OneView (View_init \<lparr>start = start (bounds v), stop = stop (bounds v) - adjustment\<rparr>
                     None None)))) = Inr r" by blast
  from sequence_Inr_D[OF 1] obtain ap where
    2: "(case ap of (adjustment, patched_sql) \<Rightarrow>
     rbind (view self) (\<lambda>v.
       Renderer_init cfg (SqlStr patched_sql)
         (OneView (View_init \<lparr>start = start (bounds v), stop = stop (bounds v) - adjustment\<rparr>
                     None None)))) = Inr r" by blast
  obtain adj ps where ap: "ap = (adj, ps)" by (cases ap)
  from 2 have 3: "rbind (view self) (\<lambda>v.
       Renderer_init cfg (SqlStr ps)
         (OneView (View_init \<lparr>start = start (bounds v), stop = stop (bounds v) - adj\<rparr>
                     None None))) = Inr r" unfolding ap by simp
  from sequence_Inr_D[OF 3] show ?thesis by blast
qed

lemma patch_body_ordered: "patch_body cfg self rendered rows cols = Inr r \<Longrightarrow> views_ordered (views r)"
  using patch_body_Inr Renderer_init_Inr by blast

lemma with_selector_Inr:
  assumes "rbind (sql_view self) (\<lambda>sv.
             rbind (Renderer_init cfg (SqlStr sv) NoView) (\<lambda>r0.
             rbind (render_chain cfg r0 chain) (\<lambda>rendered.
               patch_body cfg self (Some rendered) rows cols))) = Inr r"
  shows "\<exists>rendered. patch_body cfg self (Some rendered) rows cols = Inr r"
proof -
  from sequence_Inr_D[OF assms] obtain sv where
    1: "rbind (Renderer_init cfg (SqlStr sv) NoView) (\<lambda>r0.
             rbind (render_chain cfg r0 chain) (\<lambda>rendered.
               patch_body cfg self (Some rendered) rows cols)) = Inr r" by blast
  from sequence_Inr_D[OF 1] obtain r0 where
    2: "rbind (render_chain cfg r0 chain) (\<lambda>rendered.
               patch_body cfg self (Some rendered) rows cols) = Inr r" by blast
  from sequence_Inr_D[OF 2] show ?thesis by blast
qed

lemma apply_patch_Inr:
  assumes "apply_method cfg self (Patch selector rows0 cols0 side_effect) = Inr r"
  shows "r = self \<or> (\<exists>rendered rows cols. patch_body cfg self rendered rows cols = Inr r)"
proof (cases side_effect)
  case None
  show ?thesis
  proof (cases selector)
    case N: None
    with None assms show ?thesis by auto
  next
    case (Some chain)
    with None assms with_selector_Inr[of self cfg chain rows0 cols0 r] show ?thesis by auto
  qed
next
  case (Some nse)
  show ?thesis
  proof (cases nse)
    case None
    with Some assms show ?thesis by (auto split: if_splits)
  next
    case S: (Some rc)
    obtain rows cols where rc: "rc = (rows, cols)" by (cases rc)
    show ?thesis
    proof (cases selector)
      case None
      with Some S rc assms show ?thesis by (auto split: if_splits)
    next
      case C: (Some chain)
      with Some S rc assms with_selector_Inr[of self cfg chain rows cols r] show ?thesis
        by (auto split: if_splits)
    qed
  qed
qed

lemma apply_method_ordered:
  "views_ordered (views self) \<Longrightarrow> apply_method cfg self m = Inr r \<Longrightarrow> views_ordered (views r)"
proof (cases m)
  case (Patch selector rows0 cols0 side_effect)
  assume o: "views_ordered (views self)" and a: "apply_method cfg self m = Inr r"
  from apply_patch_Inr[OF a[unfolded Patch]] o show ?thesis
    using patch_body_ordered by blast
qed (auto dest: getitem_ordered statement_ordered body_ordered cte_ordered insert_into_ordered
      subquery_ordered table_ordered create_table_as_ordered)

lemma render_chain_ordered:
  "views_ordered (views self) \<Longrightarrow> render_chain cfg self chain = Inr r \<Longrightarrow> views_ordered (views r)"
proof (induction chain arbitrary: self)
  case Nil then show ?case by simp
next
  case (Cons m chain)
  from Cons.prems(2) obtain r1 where "apply_method cfg self m = Inr r1" "render_chain cfg r1 chain = Inr r"
    by (auto dest!: sequence_Inr_D)
  with Cons.IH[of r1] apply_method_ordered[OF Cons.prems(1)] show ?case by blast
qed

text \<open>C3, as stated: every renderer that the constructor accepts holds its views in
  ascending order of their starts, with bounds that do not overlap. The constructor compares
  each view only with its predecessor, and no view is required to start before it stops: it
  accepts the bounds \<open>(0, 4)\<close>, \<open>(6, 2)\<close>, \<open>(2, 8)\<close>, whose starts \<open>0, 6, 2\<close> do not ascend
  and whose first and last views overlap.\<close>

theorem renderer_accepts_unsorted_views:
  "Renderer_init default_config (SqlStr ''abcdefgh'')
       (ViewList [View_init \<lparr>start = 0, stop = 4\<rparr> None None,
                  View_init \<lparr>start = 6, stop = 2\<rparr> None None,
                  View_init \<lparr>start = 2, stop = 8\<rparr> None None])
     = Inr \<lparr>rendering_sql = \<lparr>stripped_sql = None, raw_sql = ''abcdefgh'',
                                search_sql = ''abcdefgh''\<rparr>,
             views = [View_init \<lparr>start = 0, stop = 4\<rparr> None None,
                      View_init \<lparr>start = 6, stop = 2\<rparr> None None,
                      View_init \<lparr>start = 2, stop = 8\<rparr> None None]\<rparr>
   \<and> \<not> sorted (map (\<lambda>v. start (bounds v))
                  [View_init \<lparr>start = 0, stop = 4\<rparr> None None,
                   View_init \<lparr>start = 6, stop = 2\<rparr> None None,
                   View_init \<lparr>start = 2, stop = 8\<rparr> None None])
   \<and> start (bounds (View_init \<lparr>start = 2, stop = 8\<rparr> None None))
       < stop (bounds (View_init \<lparr>start = 0, stop = 4\<rparr> None None))"
  by (simp add: Renderer_init_def RenderSQL_init_def default_config_def View_init_def)

text \<open>C3, amended: a list of views in which some view starts before its predecessor stops
  makes the constructor raise \<open>NestedMatchError\<close> (once the text itself is accepted); so the
  views of every constructed renderer satisfy
  \<open>views[i].bounds.stop \<le> views[i+1].bounds.start\<close> for every pair of neighbours; every
  operation, and every chain of operations, returns a renderer that satisfies it; and when
  in addition every view has \<open>bounds.start \<le> bounds.stop\<close>, the starts ascend and any two
  views are disjoint.\<close>

theorem renderer_views_ordered:
  "(\<forall>rsql. (case sql of SqlStr s \<Rightarrow> RenderSQL_init cfg s | SqlRender r \<Rightarrow> Inr r) = Inr rsql
           \<and> \<not> views_ordered vs
        \<longrightarrow> Renderer_init cfg sql (ViewList vs)
            = Inl (NestedMatchError (fragments (raw_sql rsql) vs)))
   \<and> (\<forall>r. Renderer_init cfg sql va = Inr r \<longrightarrow> views_ordered (views r))
   \<and> (\<forall>self m r. views_ordered (views self) \<and> apply_method cfg self m = Inr r
        \<longrightarrow> views_ordered (views r))
   \<and> (\<forall>chain query r. render cfg chain query = Inr r \<longrightarrow> views_ordered (views r))
   \<and> (views_ordered vs \<and> (\<forall>v \<in> set vs. start (bounds v) \<le> stop (bounds v))
        \<longrightarrow> sorted (map (\<lambda>v. start (bounds v)) vs)
            \<and> (\<forall>i j. i < j \<and> j < length vs
                  \<longrightarrow> stop (bounds (vs ! i)) \<le> start (bounds (vs ! j))))"
proof (intro conjI allI impI)
  fix rsql
  assume "(case sql of SqlStr s \<Rightarrow> RenderSQL_init cfg s | SqlRender r \<Rightarrow> Inr r) = Inr rsql
          \<and> \<not> views_ordered vs"
  then show "Renderer_init cfg sql (ViewList vs) = Inl (NestedMatchError (fragments (raw_sql rsql) vs))"
    using Renderer_init_nested by blast
next
  fix r assume "Renderer_init cfg sql va = Inr r"
  then show "views_ordered (views r)" by (rule Renderer_init_Inr)
next
  fix self m r assume "views_ordered (views self) \<and> apply_method cfg self m = Inr r"
  then show "views_ordered (views r)" using apply_method_ordered by blast
next
  fix chain query r assume "render cfg chain query = Inr r"
  then obtain r0 where "Renderer_init cfg (SqlStr query) NoView = Inr r0"
      "render_chain cfg r0 chain = Inr r"
    by (auto simp: render_def dest!: sequence_Inr_D)
  then show "views_ordered (views r)"
    using Renderer_init_Inr render_chain_ordered by blast
next
  assume "views_ordered vs \<and> (\<forall>v \<in> set vs. start (bounds v) \<le> stop (bounds v))"
  then show "sorted (map (\<lambda>v. start (bounds v)) vs)"
    using ordered_wellformed_sorted by blast
next
  fix i j
  assume "views_ordered vs \<and> (\<forall>v \<in> set vs. start (bounds v) \<le> stop (bounds v))"
    and "i < j \<and> j < length vs"
  then show "stop (bounds (vs ! i)) \<le> start (bounds (vs ! j))"
    using ordered_wellformed_pairwise by blast
qed

theorem renderer_views_ordered_witness:
  "Renderer_init default_config (SqlStr ''abcdef'')
       (ViewList [View_init \<lparr>start = 0, stop = 3\<rparr> None None,
                  View_init \<lparr>start = 2, stop = 5\<rparr> None None])
     = Inl (NestedMatchError [''abc'', ''cde''])
   \<and> views_ordered [View_init \<lparr>start = 0, stop = 2\<rparr> None None,
                     View_init \<lparr>start = 2, stop = 5\<rparr> None None]
   \<and> sorted (map (\<lambda>v. start (bounds v))
                [View_init \<lparr>start = 0, stop = 2\<rparr> None None,
                 View_init \<lparr>start = 2, stop = 5\<rparr> None None])"
proof -
  let ?bad = "[View_init \<lparr>start = 0, stop = 3\<rparr> None None,
               View_init \<lparr>start = 2, stop = 5\<rparr> None None]"
  let ?good = "[View_init \<lparr>start = 0, stop = 2\<rparr> None None,
                View_init \<lparr>start = 2, stop = 5\<rparr> None None]"
  let ?rsql = "\<lparr>stripped_sql = None, raw_sql = ''abcdef'', search_sql = ''abcdef''\<rparr>"
  have bad: "\<not> views_ordered ?bad"
    by (simp add: views_ordered_def View_init_def)
  have good: "views_ordered ?good"
    by (simp add: views_ordered_def View_init_def)
  have wf: "\<forall>v \<in> set ?good. start (bounds v) \<le> stop (bounds v)"
    by (simp add: View_init_def)
  have rs: "(case SqlStr ''abcdef'' of SqlStr s \<Rightarrow> RenderSQL_init default_config s
             | SqlRender r \<Rightarrow> Inr r) = Inr ?rsql"
    by (simp add: RenderSQL_init_def default_config_def)
  note T1 = renderer_views_ordered[where sql = "SqlStr ''abcdef''" and cfg = default_config
      and vs = ?bad and va = NoView, THEN conjunct1, rule_format, OF conjI, OF rs bad]
  note T2 = renderer_views_ordered[where sql = "SqlStr ''abcdef''" and cfg = default_config
      and vs = ?good and va = NoView, THEN conjunct2, THEN conjunct2, THEN conjunct2,
      THEN conjunct2, rule_format, OF conjI, OF good wf, THEN conjunct1]
  have f: "fragments (raw_sql ?rsql) ?bad = [''abc'', ''cde'']"
    by (simp add: fragments_def slice_of_def py_slice_def py_clamp_def View_init_def)
  from T1 have a: "Renderer_init default_config (SqlStr ''abcdef'') (ViewList ?bad)
           = Inl (NestedMatchError [''abc'', ''cde''])"
    unfolding f .
  from a good T2 show ?thesis by (intro conjI)
qed

text \<open>
  Claim C2. Every matcher searches the search text inside the current view and returns
  views that are offsets into the original text, and the text the renderer holds is the
  original, unmasked one. \<open>table\<close> does not: it builds its result from the text it
  searched instead of from the renderer's text. After \<open>statement(1)\<close> on
  \<open>select 1; select * from b\<close> the table \<open>b\<close> lies at 24 to 25 of the original text, but
  \<open>table\<close> returns a renderer whose text is only the second statement and whose view is
  15 to 16, an offset into that statement. In safe mode on a text with a string literal
  the renderer that \<open>table\<close> returns holds the masked text as its \<open>raw_sql\<close>: the
  literal \<open>x\<close> is gone.
\<close>

theorem table_rebases_on_search_text:
  "render default_config [Statement 1 None, Table ''b'' None] ''select 1; select * from b''
     = Inr \<lparr>rendering_sql = \<lparr>stripped_sql = None, raw_sql = '' select * from b'',
                                search_sql = '' select * from b''\<rparr>,
            views = [\<lparr>bounds = \<lparr>start = 15, stop = 16\<rparr>,
                      patch = Some \<lparr>start = 15, stop = 16\<rparr>,
                      patch_params = \<lparr>patch_alias = Some ''b'', select_all_from = False,
                                      orig_alias = Some ''b''\<rparr>\<rparr>]\<rparr>
   \<and> render \<lparr>safe_mode = True, replace_new_patch_aliases = True\<rparr> [Table ''t'' None]
        (''select '' @ [sq] @ ''x'' @ [sq] @ '' from t'')
     = Inr \<lparr>rendering_sql = \<lparr>stripped_sql = Some (''select '' @ [sq] @ '' '' @ [sq] @ '' from t''),
                                raw_sql = ''select '' @ [sq] @ '' '' @ [sq] @ '' from t'',
                                search_sql = ''select '' @ [sq] @ '' '' @ [sq] @ '' from t''\<rparr>,
            views = [\<lparr>bounds = \<lparr>start = 16, stop = 17\<rparr>,
                      patch = Some \<lparr>start = 16, stop = 17\<rparr>,
                      patch_params = \<lparr>patch_alias = Some ''t'', select_all_from = False,
                                      orig_alias = Some ''t''\<rparr>\<rparr>]\<rparr>"
  by code_simp































text \<open>
  Claim C1. \<open>patch\<close> applies the replacements in ascending order and corrects the offsets
  of each view by the running \<open>adjustment\<close>, so that the final text is the original one
  with each patch range replaced by a space and its \<open>VALUES\<close> expression. The adjustment
  counts only the replacement itself: the alias rewrite that follows is taken to keep the
  length (the new alias is padded with \<open>rjust\<close> to the length of the old one). But the
  padded alias is given to \<open>re.sub\<close> as a template, unescaped, and a backslash escape in
  it is expanded. For the table \<open>s.t\name\<close> the new alias \<open>t\name\<close> is written as
  \<open>t\<close>, a newline and \<open>ame\<close>, one character shorter than the reference it replaces, and
  the second replacement lands one character too far to the right: the \<open>s\<close> of the
  second table name is left in the text and the space before \<open>on\<close> is overwritten.
\<close>

theorem patch_alias_rewrite_shifts_offsets:
  "sql_text default_config
     (''select s.t'' @ [bsl] @ ''name.c from s.t'' @ [bsl] @ ''name join s.t'' @ [bsl]
        @ ''name on 1=1'')
     [Patch (Some [Table (''s.t'' @ [bsl] @ ''name'') None]) [ListRow [PyInt 1]] [''c''] None]
   = Inr (''select   t'' @ [nl] @ ''ame.c from  (VALUES (1)) AS t'' @ [bsl] @ ''name(''
          @ [dq] @ ''c'' @ [dq] @ '') join s (VALUES (1)) AS t'' @ [bsl] @ ''name(''
          @ [dq] @ ''c'' @ [dq] @ '')on 1=1'')"
  by code_simp

(*THMS-END*)

end
